theory Spec2Isabelle
  imports Main
begin

section \<open>Data model\<close>

text \<open>
  The three sources under \<open>src/demo\<close> are JNI bridges between a Java class and the
  llama.cpp inference library: \<open>llama_jni.c\<close> (current API), \<open>llama_jni_new.c\<close> (the
  previous API revision, with a \<open>maxTokens\<close> argument) and \<open>llama_jni_simple.c\<close> (a mock,
  compiled with \<open>USE_REAL_LLAMA 0\<close>).

  Pointers are addresses, \<open>0\<close> being \<open>NULL\<close>; a \<open>jlong\<close> handle is the address of the
  session struct. A \<open>jstring\<close> argument is \<open>None\<close> for a Java \<open>null\<close>. A token is the
  value of an \<open>int32_t\<close>; the bridge only compares tokens for equality.
\<close>

type_synonym ptr = nat
type_synonym llama_token = int
type_synonym jstring = "string option"

text \<open>\<open>typedef struct { model; ctx; sampler; } llama_model_context\<close>\<close>

record llama_model_context =
  model :: ptr
  ctx :: ptr
  sampler :: ptr

text \<open>
  The exceptions the bridge raises with \<open>ThrowNew\<close>, each with its message. A function
  that has thrown returns \<open>0\<close>/\<open>NULL\<close> to the JVM, which then raises the exception: the
  model returns \<open>Inl (Throw \<dots>)\<close>. \<open>InvalidPointer\<close> stands for the undefined behaviour
  of reading a session struct through an address that is not a live allocation.
\<close>

datatype java_exception =
  IllegalArgumentException | OutOfMemoryError | RuntimeException | IllegalStateException

datatype error = Throw java_exception string | InvalidPointer

text \<open>
  The stages added to the sampler chain; the float literals of the source are kept as
  written.
\<close>

datatype sampler_stage = TopK int | TopP string nat | Temp string | Dist nat

text \<open>
  Every call into the inference library that creates, destroys or advances engine state
  is recorded, in order, with its arguments and (where it has one) its result:
  \<open>ModelLoad path model\<close>, \<open>ContextInit model n_ctx n_threads ctx\<close>,
  \<open>SamplerChainInit sampler\<close>, \<open>Tokenize vocab text n_tokens_max n_tokens\<close>,
  \<open>Decode ctx batch rc\<close>, \<open>Sample sampler ctx token\<close>.
\<close>

datatype event =
    BackendInit
  | BackendFree
  | ModelLoad string ptr
  | ModelFree ptr
  | ContextInit ptr nat nat ptr
  | ContextFree ptr
  | SamplerChainInit ptr
  | SamplerChainAdd ptr sampler_stage
  | SamplerFree ptr
  | MemoryClear ptr
  | Tokenize ptr string int int
  | Decode ptr "llama_token list" int
  | Sample ptr ptr llama_token
  | Accept ptr llama_token

text \<open>
  The library, the C allocator and the JNI environment are not part of the repository:
  they are a parameter. \<open>'e\<close> is their hidden state; each entry point is a function of
  that state. \<open>void_effect\<close> is the state change of a call that returns nothing.
  \<open>malloc\<close> only says whether the allocation succeeds, \<open>fopen_r\<close> whether
  \<open>fopen(filename, "r")\<close> does. The end token is a property of the loaded model, fixed
  once it is loaded. \<open>llama_token_to_piece\<close> is given
  the length of the caller's buffer and returns its \<open>int\<close> result with the bytes it left
  in the buffer. \<open>llama_init_from_model\<close> is \<open>llama_new_context_with_model\<close> in
  \<open>llama_jni_new.c\<close>, and \<open>llama_model_free\<close> is \<open>llama_free_model\<close> there.
\<close>

record 'e platform =
  GetStringUTFChars :: "string \<Rightarrow> 'e \<Rightarrow> string option"
  malloc :: "'e \<Rightarrow> bool \<times> 'e"
  fopen_r :: "string \<Rightarrow> 'e \<Rightarrow> bool"
  void_effect :: "event \<Rightarrow> 'e \<Rightarrow> 'e"
  llama_model_load_from_file :: "string \<Rightarrow> 'e \<Rightarrow> ptr \<times> 'e"
  llama_init_from_model :: "ptr \<Rightarrow> nat \<Rightarrow> nat \<Rightarrow> 'e \<Rightarrow> ptr \<times> 'e"
  llama_sampler_chain_init :: "'e \<Rightarrow> ptr \<times> 'e"
  llama_n_ctx :: "ptr \<Rightarrow> 'e \<Rightarrow> int"
  llama_model_get_vocab :: "ptr \<Rightarrow> 'e \<Rightarrow> ptr"
  llama_tokenize :: "ptr \<Rightarrow> string \<Rightarrow> int \<Rightarrow> bool \<Rightarrow> bool \<Rightarrow> 'e \<Rightarrow> int \<times> llama_token list"
  llama_decode :: "ptr \<Rightarrow> llama_token list \<Rightarrow> 'e \<Rightarrow> int \<times> 'e"
  llama_sampler_sample :: "ptr \<Rightarrow> ptr \<Rightarrow> 'e \<Rightarrow> llama_token \<times> 'e"
  llama_token_eos :: "ptr \<Rightarrow> llama_token"
  llama_token_to_piece :: "ptr \<Rightarrow> llama_token \<Rightarrow> int \<Rightarrow> 'e \<Rightarrow> int \<times> string"

text \<open>
  The state the bridge runs in: the platform's hidden state, the record of library
  calls, the session structs that are allocated (\<open>heap\<close>), and the highest address
  the allocator has handed out (addresses are never reused, so a freed handle stays
  dangling).
\<close>

record 'e world =
  engine :: 'e
  trace :: "event list"
  heap :: "ptr \<rightharpoonup> llama_model_context"
  brk :: ptr

definition MAX_PROMPT_LENGTH :: nat where "MAX_PROMPT_LENGTH = 4096"
definition MAX_RESPONSE_LENGTH :: int where "MAX_RESPONSE_LENGTH = 8192"
definition DEFAULT_MAX_TOKENS :: int where "DEFAULT_MAX_TOKENS = 512"

section \<open>Calls into the platform\<close>

definition void_call :: "'e platform \<Rightarrow> event \<Rightarrow> 'e world \<Rightarrow> 'e world" where
  "void_call api ev w =
     w\<lparr>engine := void_effect api ev (engine w), trace := trace w @ [ev]\<rparr>"

definition call_model_load :: "'e platform \<Rightarrow> string \<Rightarrow> 'e world \<Rightarrow> ptr \<times> 'e world" where
  "call_model_load api path w =
     (case llama_model_load_from_file api path (engine w) of
        (m, e) \<Rightarrow> (m, w\<lparr>engine := e, trace := trace w @ [ModelLoad path m]\<rparr>))"

definition call_init_from_model ::
  "'e platform \<Rightarrow> ptr \<Rightarrow> nat \<Rightarrow> nat \<Rightarrow> 'e world \<Rightarrow> ptr \<times> 'e world" where
  "call_init_from_model api m n_ctx n_threads w =
     (case llama_init_from_model api m n_ctx n_threads (engine w) of
        (c, e) \<Rightarrow> (c, w\<lparr>engine := e, trace := trace w @ [ContextInit m n_ctx n_threads c]\<rparr>))"

definition call_sampler_chain_init :: "'e platform \<Rightarrow> 'e world \<Rightarrow> ptr \<times> 'e world" where
  "call_sampler_chain_init api w =
     (case llama_sampler_chain_init api (engine w) of
        (s, e) \<Rightarrow> (s, w\<lparr>engine := e, trace := trace w @ [SamplerChainInit s]\<rparr>))"

definition call_tokenize ::
  "'e platform \<Rightarrow> ptr \<Rightarrow> string \<Rightarrow> int \<Rightarrow> bool \<Rightarrow> bool \<Rightarrow> 'e world
     \<Rightarrow> int \<times> llama_token list \<times> 'e world" where
  "call_tokenize api vocab text n_max add_special parse_special w =
     (case llama_tokenize api vocab text n_max add_special parse_special (engine w) of
        (n, toks) \<Rightarrow> (n, toks, w\<lparr>trace := trace w @ [Tokenize vocab text n_max n]\<rparr>))"

definition call_decode ::
  "'e platform \<Rightarrow> ptr \<Rightarrow> llama_token list \<Rightarrow> 'e world \<Rightarrow> int \<times> 'e world" where
  "call_decode api c batch w =
     (case llama_decode api c batch (engine w) of
        (rc, e) \<Rightarrow> (rc, w\<lparr>engine := e, trace := trace w @ [Decode c batch rc]\<rparr>))"

definition call_sample ::
  "'e platform \<Rightarrow> ptr \<Rightarrow> ptr \<Rightarrow> 'e world \<Rightarrow> llama_token \<times> 'e world" where
  "call_sample api s c w =
     (case llama_sampler_sample api s c (engine w) of
        (t, e) \<Rightarrow> (t, w\<lparr>engine := e, trace := trace w @ [Sample s c t]\<rparr>))"

definition call_malloc :: "'e platform \<Rightarrow> 'e world \<Rightarrow> bool \<times> 'e world" where
  "call_malloc api w = (case malloc api (engine w) of (ok, e) \<Rightarrow> (ok, w\<lparr>engine := e\<rparr>))"

text \<open>
  \<open>malloc(sizeof(llama_model_context))\<close>: \<open>NULL\<close> when the allocator refuses, else a
  fresh address; the struct's fields are written by the caller.
\<close>

definition malloc_model_context :: "'e platform \<Rightarrow> 'e world \<Rightarrow> ptr \<times> 'e world" where
  "malloc_model_context api w =
     (case call_malloc api w of
        (ok, w') \<Rightarrow>
          if ok then (Suc (brk w'), w'\<lparr>brk := Suc (brk w')\<rparr>) else (0, w'))"

text \<open>\<open>strlen\<close>, and the string \<open>NewStringUTF\<close> reads from a NUL-terminated buffer.\<close>

definition c_str :: "string \<Rightarrow> string" where
  "c_str buf = takeWhile (\<lambda>c. c \<noteq> CHR 0x00) buf"

definition strlen :: "string \<Rightarrow> nat" where
  "strlen s = length (c_str s)"

definition NewStringUTF :: "string \<Rightarrow> string" where
  "NewStringUTF buf = c_str buf"

section \<open>\<open>loadModel\<close> (\<open>llama_jni.c\<close>, \<open>llama_jni_new.c\<close>)\<close>

text \<open>
  The four \<open>llama_sampler_chain_add\<close> calls, in the order of the source.
\<close>

definition add_sampling_layers :: "'e platform \<Rightarrow> ptr \<Rightarrow> 'e world \<Rightarrow> 'e world" where
  "add_sampling_layers api s w =
     void_call api (SamplerChainAdd s (Dist 42))
       (void_call api (SamplerChainAdd s (Temp ''0.8f''))
         (void_call api (SamplerChainAdd s (TopP ''0.9f'' 1))
           (void_call api (SamplerChainAdd s (TopK 40)) w)))"

text \<open>
  \<open>loadModel\<close> is the same in both files up to the renamed library functions and the
  \<open>seed\<close> field of the context parameters. The model is loaded with
  \<open>n_gpu_layers = 0\<close>, the context created with \<open>n_ctx = 2048\<close> and \<open>n_threads = 4\<close>.
  \<open>ReleaseStringUTFChars\<close>, which follows the load on every path, is not recorded.
\<close>

definition loadModel :: "'e platform \<Rightarrow> jstring \<Rightarrow> 'e world \<Rightarrow> (error + ptr) \<times> 'e world" where
  "loadModel api path w =
     (case path of
        None \<Rightarrow> (Inl (Throw IllegalArgumentException ''Model path cannot be null''), w)
      | Some jpath \<Rightarrow>
     (case GetStringUTFChars api jpath (engine w) of
        None \<Rightarrow> (Inl (Throw OutOfMemoryError ''Failed to get string from JNI''), w)
      | Some model_path \<Rightarrow>
     (case call_model_load api model_path (void_call api BackendInit w) of
        (m, w2) \<Rightarrow>
     if m = 0 then
       (Inl (Throw RuntimeException ''Failed to load model''), void_call api BackendFree w2)
     else
     (case call_init_from_model api m 2048 4 w2 of
        (c, w3) \<Rightarrow>
     if c = 0 then
       (Inl (Throw RuntimeException ''Failed to create context''),
        void_call api BackendFree (void_call api (ModelFree m) w3))
     else
     (case call_sampler_chain_init api w3 of
        (s, w4) \<Rightarrow>
     if s = 0 then
       (Inl (Throw RuntimeException ''Failed to create sampler''),
        void_call api BackendFree
          (void_call api (ModelFree m) (void_call api (ContextFree c) w4)))
     else
     (case malloc_model_context api (add_sampling_layers api s w4) of
        (model_ctx, w5) \<Rightarrow>
     if model_ctx = 0 then
       (Inl (Throw OutOfMemoryError ''Failed to allocate memory for model context''),
        void_call api BackendFree
          (void_call api (ModelFree m)
            (void_call api (ContextFree c) (void_call api (SamplerFree s) w5))))
     else
       (Inr model_ctx,
        w5\<lparr>heap := (heap w5)(model_ctx \<mapsto> \<lparr>model = m, ctx = c, sampler = s\<rparr>)\<rparr>)))))))"

section \<open>\<open>unloadModel\<close> (\<open>llama_jni.c\<close>, \<open>llama_jni_new.c\<close>)\<close>

definition free_if_present :: "'e platform \<Rightarrow> ptr \<Rightarrow> event \<Rightarrow> 'e world \<Rightarrow> 'e world" where
  "free_if_present api p ev w = (if p \<noteq> 0 then void_call api ev w else w)"

definition unloadModel :: "'e platform \<Rightarrow> ptr \<Rightarrow> 'e world \<Rightarrow> (error + unit) \<times> 'e world" where
  "unloadModel api modelHandle w =
     (if modelHandle = 0 then (Inr (), w)
      else
        (case heap w modelHandle of
           None \<Rightarrow> (Inl InvalidPointer, w)
         | Some model_ctx \<Rightarrow>
             let w1 = free_if_present api (sampler model_ctx) (SamplerFree (sampler model_ctx)) w;
                 w2 = free_if_present api (ctx model_ctx) (ContextFree (ctx model_ctx)) w1;
                 w3 = free_if_present api (model model_ctx) (ModelFree (model model_ctx)) w2;
                 w4 = w3\<lparr>heap := (heap w3)(modelHandle := None)\<rparr>
             in (Inr (), void_call api BackendFree w4)))"

section \<open>\<open>generateText\<close>\<close>

text \<open>
  C \<open>int\<close> addition, with the wrap-around of a 32-bit two's complement machine written
  out. It is used where the source adds a length the engine returned; the counters
  \<open>i\<close> and \<open>generated_tokens\<close> never pass 512. The token buffer and the response
  buffer live for one call: their contents are lists of the model, their allocation can
  fail, and their \<open>free\<close> is not recorded.
\<close>

definition int32_add :: "int \<Rightarrow> int \<Rightarrow> int" where
  "int32_add a b = signed_take_bit 31 (a + b)"

text \<open>
  The locals of the generation loop: the bytes copied into \<open>response\<close> so far,
  \<open>response_pos\<close>, \<open>generated_tokens\<close>, and the world.
\<close>

record 'e gen_state =
  response :: string
  response_pos :: int
  generated_tokens :: int
  world :: "'e world"

text \<open>
  How one pass through the loop body ends: at the first \<open>break\<close> (end token), at the
  second \<open>break\<close> (the decode of the new token failed), or at the end of the body.
\<close>

datatype loop_exit = EndOfGeneration | DecodeFailed | Next

text \<open>
  The body of the \<open>for\<close> loop. \<open>vocab\<close> is the first argument of
  \<open>llama_token_to_piece\<close>: the vocabulary in \<open>llama_jni.c\<close>, the model in
  \<open>llama_jni_new.c\<close>. \<open>memcpy\<close> copies the first \<open>token_len\<close> bytes of \<open>token_str\<close>.
\<close>

definition loop_body ::
  "'e platform \<Rightarrow> ptr \<Rightarrow> llama_model_context \<Rightarrow> 'e gen_state \<Rightarrow> loop_exit \<times> 'e gen_state" where
  "loop_body api vocab model_ctx s =
     (case call_sample api (sampler model_ctx) (ctx model_ctx) (world s) of
        (next_token, w1) \<Rightarrow>
     if next_token = llama_token_eos api (model model_ctx) then
       (EndOfGeneration, s\<lparr>world := w1\<rparr>)
     else
       let w2 = void_call api (Accept (sampler model_ctx) next_token) w1 in
     (case llama_token_to_piece api vocab next_token 256 (engine w2) of
        (token_len, token_str) \<Rightarrow>
       let s1 =
         (if token_len > 0
             \<and> int32_add (response_pos s) token_len < MAX_RESPONSE_LENGTH - 1
          then s\<lparr>response := response s @ take (nat token_len) token_str,
                 response_pos := int32_add (response_pos s) token_len\<rparr>
          else s)
       in
     (case call_decode api (ctx model_ctx) [next_token] w2 of
        (rc, w3) \<Rightarrow>
     if rc \<noteq> 0 then (DecodeFailed, s1\<lparr>world := w3\<rparr>)
     else (Next, s1\<lparr>world := w3, generated_tokens := generated_tokens s1 + 1\<rparr>))))"

text \<open>
  \<open>for (int i = 0; i < max_gen_tokens && response_pos < MAX_RESPONSE_LENGTH - 256; i++)\<close>,
  entered at loop counter \<open>i\<close>.
\<close>

function generation_loop ::
  "'e platform \<Rightarrow> ptr \<Rightarrow> llama_model_context \<Rightarrow> int \<Rightarrow> int \<Rightarrow> 'e gen_state \<Rightarrow> 'e gen_state" where
  "generation_loop api vocab model_ctx max_gen_tokens i s =
     (if i < max_gen_tokens \<and> response_pos s < MAX_RESPONSE_LENGTH - 256 then
        (case loop_body api vocab model_ctx s of
           (Next, s') \<Rightarrow> generation_loop api vocab model_ctx max_gen_tokens (i + 1) s'
         | (_, s') \<Rightarrow> s')
      else s)"
  by pat_completeness auto
termination
  by (relation "measure (\<lambda>(api, vocab, model_ctx, max_gen_tokens, i, s). nat (max_gen_tokens - i))")
     auto

text \<open>
  The locals as the loop finds them: \<open>response_pos = 0\<close>, \<open>generated_tokens = 0\<close>, an
  empty buffer.
\<close>

definition initial_state :: "'e world \<Rightarrow> 'e gen_state" where
  "initial_state w = \<lparr>response = [], response_pos = 0, generated_tokens = 0, world = w\<rparr>"

text \<open>
  The loop, the terminator written at \<open>response[response_pos]\<close>, and \<open>NewStringUTF\<close>:
  the end of \<open>generateText\<close>, which returns normally.
\<close>

definition generate_response ::
  "'e platform \<Rightarrow> ptr \<Rightarrow> llama_model_context \<Rightarrow> int \<Rightarrow> 'e world \<Rightarrow> (error + string) \<times> 'e world" where
  "generate_response api vocab model_ctx max_gen_tokens w =
     (let s = generation_loop api vocab model_ctx max_gen_tokens 0 (initial_state w)
      in (Inr (NewStringUTF (response s)), world s))"

text \<open>
  The checks both variants make before touching the engine: handle, prompt, session
  state, the prompt's characters, its length.
\<close>

definition validate_request ::
  "'e platform \<Rightarrow> ptr \<Rightarrow> jstring \<Rightarrow> 'e world \<Rightarrow> error + (llama_model_context \<times> string)" where
  "validate_request api modelHandle prompt w =
     (if modelHandle = 0 then Inl (Throw IllegalArgumentException ''Model not loaded'')
      else
     (case prompt of
        None \<Rightarrow> Inl (Throw IllegalArgumentException ''Prompt cannot be null'')
      | Some jprompt \<Rightarrow>
     (case heap w modelHandle of
        None \<Rightarrow> Inl InvalidPointer
      | Some model_ctx \<Rightarrow>
     if model model_ctx = 0 \<or> ctx model_ctx = 0 \<or> sampler model_ctx = 0 then
       Inl (Throw IllegalStateException ''Invalid model state'')
     else
     (case GetStringUTFChars api jprompt (engine w) of
        None \<Rightarrow> Inl (Throw OutOfMemoryError ''Failed to get prompt string'')
      | Some prompt_text \<Rightarrow>
     if strlen prompt_text = 0 \<or> strlen prompt_text > MAX_PROMPT_LENGTH then
       Inl (Throw IllegalArgumentException ''Invalid prompt length'')
     else Inr (model_ctx, prompt_text)))))"

text \<open>
  From the tokenizer call to the allocation of the response buffer, the same in both
  variants: tokenize, the two checks on the token count, the priming decode of the whole
  prompt (\<open>llama_batch_get_one(tokens, n_tokens)\<close>), \<open>malloc(MAX_RESPONSE_LENGTH)\<close>.
\<close>

definition prime_prompt ::
  "'e platform \<Rightarrow> llama_model_context \<Rightarrow> ptr \<Rightarrow> bool \<Rightarrow> string \<Rightarrow> int \<Rightarrow> 'e world
     \<Rightarrow> (error + unit) \<times> 'e world" where
  "prime_prompt api model_ctx vocab parse_special prompt_text n_ctx w =
     (case call_tokenize api vocab prompt_text n_ctx True parse_special w of
        (n_tokens, tokens, w1) \<Rightarrow>
     if n_tokens < 0 then
       (Inl (Throw RuntimeException ''Failed to tokenize prompt''), w1)
     else if n_tokens \<ge> n_ctx then
       (Inl (Throw IllegalArgumentException ''Prompt too long for context''), w1)
     else
     (case call_decode api (ctx model_ctx) (take (nat n_tokens) tokens) w1 of
        (rc, w2) \<Rightarrow>
     if rc \<noteq> 0 then
       (Inl (Throw RuntimeException ''Failed to evaluate prompt''), w2)
     else
     (case call_malloc api w2 of
        (ok, w3) \<Rightarrow>
     if \<not> ok then
       (Inl (Throw OutOfMemoryError ''Failed to allocate response buffer''), w3)
     else (Inr (), w3))))"

subsection \<open>\<open>llama_jni_new.c\<close>\<close>

text \<open>
  Five arguments; \<open>maxTokens\<close> is a \<open>jint\<close>. The token buffer is a variable-length
  array and the model is passed where the vocabulary is expected. \<open>before_loop_new\<close> is
  the function up to the loop (without the computation of \<open>max_gen_tokens\<close>, which
  touches nothing else); it yields the session struct and the vocabulary argument.
\<close>

definition sanitize_maxTokens :: "int \<Rightarrow> int" where
  "sanitize_maxTokens maxTokens =
     (if maxTokens > 0 \<and> maxTokens \<le> DEFAULT_MAX_TOKENS then maxTokens
      else DEFAULT_MAX_TOKENS)"

definition before_loop_new ::
  "'e platform \<Rightarrow> ptr \<Rightarrow> jstring \<Rightarrow> 'e world
     \<Rightarrow> (error + (llama_model_context \<times> ptr)) \<times> 'e world" where
  "before_loop_new api modelHandle prompt w =
     (case validate_request api modelHandle prompt w of
        Inl err \<Rightarrow> (Inl err, w)
      | Inr (model_ctx, prompt_text) \<Rightarrow>
          let w1 = void_call api (MemoryClear (ctx model_ctx)) w;
              n_ctx = llama_n_ctx api (ctx model_ctx) (engine w1)
          in
     (case prime_prompt api model_ctx (model model_ctx) False prompt_text n_ctx w1 of
        (Inl err, w') \<Rightarrow> (Inl err, w')
      | (Inr _, w') \<Rightarrow> (Inr (model_ctx, model model_ctx), w')))"

definition generateText_new ::
  "'e platform \<Rightarrow> ptr \<Rightarrow> jstring \<Rightarrow> int \<Rightarrow> 'e world \<Rightarrow> (error + string) \<times> 'e world" where
  "generateText_new api modelHandle prompt maxTokens w =
     (let max_gen_tokens = sanitize_maxTokens maxTokens in
      case before_loop_new api modelHandle prompt w of
        (Inl err, w') \<Rightarrow> (Inl err, w')
      | (Inr (model_ctx, vocab), w') \<Rightarrow>
          generate_response api vocab model_ctx max_gen_tokens w')"

subsection \<open>\<open>llama_jni.c\<close>\<close>

text \<open>
  Four arguments, the bound is always \<open>DEFAULT_MAX_TOKENS\<close>; the token buffer is
  allocated with \<open>malloc\<close>, and the vocabulary is asked of the model.
\<close>

definition before_loop ::
  "'e platform \<Rightarrow> ptr \<Rightarrow> jstring \<Rightarrow> 'e world
     \<Rightarrow> (error + (llama_model_context \<times> ptr)) \<times> 'e world" where
  "before_loop api modelHandle prompt w =
     (case validate_request api modelHandle prompt w of
        Inl err \<Rightarrow> (Inl err, w)
      | Inr (model_ctx, prompt_text) \<Rightarrow>
          let w1 = void_call api (MemoryClear (ctx model_ctx)) w;
              n_ctx = llama_n_ctx api (ctx model_ctx) (engine w1)
          in
     (case call_malloc api w1 of
        (ok, w2) \<Rightarrow>
     if \<not> ok then
       (Inl (Throw OutOfMemoryError ''Failed to allocate token buffer''), w2)
     else
       let vocab = llama_model_get_vocab api (model model_ctx) (engine w2) in
     (case prime_prompt api model_ctx vocab True prompt_text n_ctx w2 of
        (Inl err, w') \<Rightarrow> (Inl err, w')
      | (Inr _, w') \<Rightarrow> (Inr (model_ctx, vocab), w'))))"

definition generateText ::
  "'e platform \<Rightarrow> ptr \<Rightarrow> jstring \<Rightarrow> 'e world \<Rightarrow> (error + string) \<times> 'e world" where
  "generateText api modelHandle prompt w =
     (let max_gen_tokens = DEFAULT_MAX_TOKENS in
      case before_loop api modelHandle prompt w of
        (Inl err, w') \<Rightarrow> (Inl err, w')
      | (Inr (model_ctx, vocab), w') \<Rightarrow>
          generate_response api vocab model_ctx max_gen_tokens w')"

section \<open>The mock: \<open>llama_jni_simple.c\<close> with \<open>USE_REAL_LLAMA 0\<close>\<close>

text \<open>
  The mock's session struct, its own heap of such structs, the static \<open>global_model\<close>
  and what it prints. In \<open>loadModel_simple\<close> the local \<open>model_path\<close> of the source is
  \<open>path_chars\<close>, the struct field keeping the name.
\<close>

record simple_model_context =
  model_id :: int
  model_path :: string
  is_loaded :: int

record 'e simple_world =
  s_engine :: 'e
  s_heap :: "ptr \<rightharpoonup> simple_model_context"
  s_brk :: ptr
  global_model :: ptr
  stdout :: "string list"

definition file_exists :: "'e platform \<Rightarrow> string \<Rightarrow> 'e \<Rightarrow> int" where
  "file_exists api filename e = (if fopen_r api filename e then 1 else 0)"

definition printf :: "string \<Rightarrow> 'e simple_world \<Rightarrow> 'e simple_world" where
  "printf line w = w\<lparr>stdout := stdout w @ [line]\<rparr>"

definition loadModel_simple ::
  "'e platform \<Rightarrow> jstring \<Rightarrow> 'e simple_world \<Rightarrow> (error + ptr) \<times> 'e simple_world" where
  "loadModel_simple api path w =
     (case path of
        None \<Rightarrow> (Inl (Throw IllegalArgumentException ''Model path cannot be null''), w)
      | Some jpath \<Rightarrow>
     (case GetStringUTFChars api jpath (s_engine w) of
        None \<Rightarrow> (Inl (Throw OutOfMemoryError ''Failed to get string from JNI''), w)
      | Some path_chars \<Rightarrow>
          let w1 =
            (if file_exists api path_chars (s_engine w) = 0
             then printf (''Model file not found: '' @ c_str path_chars
                          @ '' (Enhanced Mock Mode - Simulating Load)'') w
             else w)
          in
     (case malloc api (s_engine w1) of
        (ok, e) \<Rightarrow>
     if \<not> ok then
       (Inl (Throw OutOfMemoryError ''Failed to allocate memory for model context''),
        w1\<lparr>s_engine := e\<rparr>)
     else
       let model_ctx = Suc (s_brk w1);
           w2 = w1\<lparr>s_engine := e, s_brk := model_ctx,
                   s_heap := (s_heap w1)(model_ctx \<mapsto>
                     \<lparr>model_id = 12345, model_path = take 1023 (c_str path_chars),
                      is_loaded = 1\<rparr>)\<rparr>;
           w3 = printf (''Mock model loaded from: '' @ c_str path_chars) w2
       in (Inr model_ctx, w3\<lparr>global_model := model_ctx\<rparr>))))"

definition unloadModel_simple ::
  "'e platform \<Rightarrow> ptr \<Rightarrow> 'e simple_world \<Rightarrow> (error + unit) \<times> 'e simple_world" where
  "unloadModel_simple api modelHandle w =
     (if modelHandle = 0 then (Inr (), w)
      else
        let w1 = (if global_model w = modelHandle then w\<lparr>global_model := 0\<rparr> else w) in
        (case s_heap w1 modelHandle of
           None \<Rightarrow> (Inl InvalidPointer, w1)
         | Some _ \<Rightarrow> (Inr (), w1\<lparr>s_heap := (s_heap w1)(modelHandle := None)\<rparr>)))"

section \<open>Vocabulary of the properties\<close>

text \<open>
  The state at the head of iteration \<open>k\<close> of the loop started in \<open>s0\<close>: defined when
  iterations \<open>0..k-1\<close> all ran and reached the end of the body.
\<close>

primrec iteration_state ::
  "'e platform \<Rightarrow> ptr \<Rightarrow> llama_model_context \<Rightarrow> int \<Rightarrow> nat \<Rightarrow> 'e gen_state
     \<Rightarrow> 'e gen_state option" where
  "iteration_state api vocab model_ctx max_gen_tokens 0 s0 = Some s0"
| "iteration_state api vocab model_ctx max_gen_tokens (Suc k) s0 =
     (case iteration_state api vocab model_ctx max_gen_tokens k s0 of
        None \<Rightarrow> None
      | Some s \<Rightarrow>
          if int k < max_gen_tokens \<and> response_pos s < MAX_RESPONSE_LENGTH - 256 then
            (case loop_body api vocab model_ctx s of
               (Next, s') \<Rightarrow> Some s'
             | (_, s') \<Rightarrow> None)
          else None)"

text \<open>
  The two bridges with an engine behind them, as one family: which entry point is
  called, what it does before the loop, and the bound it gives the loop.
\<close>

datatype bridge = Jni | JniNew int

definition generate ::
  "bridge \<Rightarrow> 'e platform \<Rightarrow> ptr \<Rightarrow> jstring \<Rightarrow> 'e world \<Rightarrow> (error + string) \<times> 'e world" where
  "generate v api modelHandle prompt w =
     (case v of
        Jni \<Rightarrow> generateText api modelHandle prompt w
      | JniNew maxTokens \<Rightarrow> generateText_new api modelHandle prompt maxTokens w)"

definition enter_loop ::
  "bridge \<Rightarrow> 'e platform \<Rightarrow> ptr \<Rightarrow> jstring \<Rightarrow> 'e world
     \<Rightarrow> (error + (llama_model_context \<times> ptr)) \<times> 'e world" where
  "enter_loop v api modelHandle prompt w =
     (case v of
        Jni \<Rightarrow> before_loop api modelHandle prompt w
      | JniNew maxTokens \<Rightarrow> before_loop_new api modelHandle prompt w)"

definition loop_bound :: "bridge \<Rightarrow> int" where
  "loop_bound v =
     (case v of Jni \<Rightarrow> DEFAULT_MAX_TOKENS | JniNew maxTokens \<Rightarrow> sanitize_maxTokens maxTokens)"

text \<open>Counting calls in a trace.\<close>

fun is_decode :: "event \<Rightarrow> bool" where
  "is_decode (Decode c batch rc) = True"
| "is_decode ev = False"

fun is_sample :: "event \<Rightarrow> bool" where
  "is_sample (Sample s c t) = True"
| "is_sample ev = False"

definition decode_calls :: "event list \<Rightarrow> nat" where
  "decode_calls tr = length (filter is_decode tr)"

definition sample_calls :: "event list \<Rightarrow> nat" where
  "sample_calls tr = length (filter is_sample tr)"

text \<open>
  The engine resources a trace leaves acquired: each successful creation adds one, each
  free removes it.
\<close>

datatype resource = Backend | Model ptr | Context ptr | SamplerChain ptr

fun apply_event :: "resource list \<Rightarrow> event \<Rightarrow> resource list" where
  "apply_event rs BackendInit = Backend # rs"
| "apply_event rs BackendFree = remove1 Backend rs"
| "apply_event rs (ModelLoad path m) = (if m = 0 then rs else Model m # rs)"
| "apply_event rs (ModelFree m) = remove1 (Model m) rs"
| "apply_event rs (ContextInit m n_ctx n_threads c) = (if c = 0 then rs else Context c # rs)"
| "apply_event rs (ContextFree c) = remove1 (Context c) rs"
| "apply_event rs (SamplerChainInit s) = (if s = 0 then rs else SamplerChain s # rs)"
| "apply_event rs (SamplerFree s) = remove1 (SamplerChain s) rs"
| "apply_event rs ev = rs"

definition live_resources :: "event list \<Rightarrow> resource list" where
  "live_resources tr = foldl apply_event [] tr"

section \<open>A scripted platform for concrete runs\<close>

text \<open>
  Its hidden state is the list of tokens the sampler will draw next (the end token \<open>0\<close>
  once the list is empty). Token \<open>1\<close> is \<open>a\<close>, token \<open>2\<close> is \<open>bc\<close>, token \<open>9\<close> is \<open>z\<close>
  and the decode of \<open>9\<close> fails. The file \<open>missing.gguf\<close> cannot be opened or loaded.
  The context window is 2048 tokens and the tokenizer returns one token per byte.
\<close>

definition demo_platform :: "llama_token list platform" where
  "demo_platform =
     \<lparr>GetStringUTFChars = (\<lambda>s e. Some s),
      malloc = (\<lambda>e. (True, e)),
      fopen_r = (\<lambda>p e. p \<noteq> ''missing.gguf''),
      void_effect = (\<lambda>ev e. e),
      llama_model_load_from_file = (\<lambda>p e. (if p = ''missing.gguf'' then 0 else 10, e)),
      llama_init_from_model = (\<lambda>m n t e. (20, e)),
      llama_sampler_chain_init = (\<lambda>e. (30, e)),
      llama_n_ctx = (\<lambda>c e. 2048),
      llama_model_get_vocab = (\<lambda>m e. 11),
      llama_tokenize = (\<lambda>v text n a p e. (int (length text), replicate (length text) 7)),
      llama_decode = (\<lambda>c batch e. (if batch = [9] then 1 else 0, e)),
      llama_sampler_sample = (\<lambda>s c e. case e of [] \<Rightarrow> (0, []) | t # ts \<Rightarrow> (t, ts)),
      llama_token_eos = (\<lambda>m. 0),
      llama_token_to_piece = (\<lambda>v t n e.
         if t = 1 then (1, ''a'') else if t = 2 then (2, ''bc'')
         else if t = 9 then (1, ''z'') else (0, []))\<rparr>"

text \<open>The same platform with a sampler that always draws token \<open>1\<close> and a decode that never fails.\<close>

definition steady_platform :: "llama_token list platform" where
  "steady_platform =
     demo_platform\<lparr>llama_sampler_sample := (\<lambda>s c e. (1, e)),
                   llama_decode := (\<lambda>c batch e. (0, e))\<rparr>"

text \<open>A world with one loaded session at address 1, and the script to sample from.\<close>

definition demo_session :: llama_model_context where
  "demo_session = \<lparr>model = 10, ctx = 20, sampler = 30\<rparr>"

definition demo_world :: "llama_token list \<Rightarrow> llama_token list world" where
  "demo_world script =
     \<lparr>engine = script, trace = [], heap = [1 \<mapsto> demo_session], brk = 1\<rparr>"

definition empty_world :: "llama_token list world" where
  "empty_world = \<lparr>engine = [], trace = [], heap = Map.empty, brk = 0\<rparr>"

definition empty_simple_world :: "llama_token list simple_world" where
  "empty_simple_world =
     \<lparr>s_engine = [], s_heap = Map.empty, s_brk = 0, global_model = 0, stdout = []\<rparr>"

section \<open>Effects of single calls\<close>

lemma trace_void_call [simp]: "trace (void_call api ev w) = trace w @ [ev]"
  by (simp add: void_call_def)

lemma heap_void_call [simp]: "heap (void_call api ev w) = heap w"
  by (simp add: void_call_def)

lemma engine_void_call [simp]: "engine (void_call api ev w) = void_effect api ev (engine w)"
  by (simp add: void_call_def)

lemma live_resources_append:
  "live_resources (tr @ evs) = foldl apply_event (live_resources tr) evs"
  by (simp add: live_resources_def)

lemma decode_calls_append [simp]: "decode_calls (tr @ evs) = decode_calls tr + decode_calls evs"
  by (simp add: decode_calls_def)

lemma sample_calls_append [simp]: "sample_calls (tr @ evs) = sample_calls tr + sample_calls evs"
  by (simp add: sample_calls_def)

lemma call_sample_eq:
  "call_sample api s c w =
     (fst (llama_sampler_sample api s c (engine w)),
      w\<lparr>engine := snd (llama_sampler_sample api s c (engine w)),
        trace := trace w @ [Sample s c (fst (llama_sampler_sample api s c (engine w)))]\<rparr>)"
  by (simp add: call_sample_def split: prod.splits)

lemma call_decode_eq:
  "call_decode api c b w =
     (fst (llama_decode api c b (engine w)),
      w\<lparr>engine := snd (llama_decode api c b (engine w)),
        trace := trace w @ [Decode c b (fst (llama_decode api c b (engine w)))]\<rparr>)"
  by (simp add: call_decode_def split: prod.splits)

section \<open>The loop body\<close>

lemma loop_body_eos:
  assumes "fst (llama_sampler_sample api (sampler mc) (ctx mc) (engine (world s)))
             = llama_token_eos api (model mc)"
  shows "loop_body api vocab mc s =
           (EndOfGeneration, s\<lparr>world := snd (call_sample api (sampler mc) (ctx mc) (world s))\<rparr>)"
  using assms by (simp add: loop_body_def call_sample_eq)

lemma loop_body_exit_eos:
  assumes "loop_body api vocab mc s = (EndOfGeneration, s')"
  shows "fst (llama_sampler_sample api (sampler mc) (ctx mc) (engine (world s)))
             = llama_token_eos api (model mc)"
  using assms
  by (auto simp: loop_body_def call_sample_eq call_decode_eq Let_def split: prod.splits if_splits)

lemma loop_body_trace:
  assumes "loop_body api vocab mc s = (ex, s')"
  shows "\<exists>t rc. trace (world s') = trace (world s) @
            (if ex = EndOfGeneration then [Sample (sampler mc) (ctx mc) t]
             else [Sample (sampler mc) (ctx mc) t, Accept (sampler mc) t, Decode (ctx mc) [t] rc])
          \<and> (ex = EndOfGeneration \<longleftrightarrow> t = llama_token_eos api (model mc))
          \<and> (ex = DecodeFailed \<longrightarrow> rc \<noteq> 0) \<and> (ex = Next \<longrightarrow> rc = 0)"
  using assms
  by (auto simp: loop_body_def call_sample_eq call_decode_eq Let_def split: prod.splits if_splits)

section \<open>Iterations\<close>

declare generation_loop.simps [simp del]

lemma generation_loop_stop:
  "\<not> (i < m \<and> response_pos s < MAX_RESPONSE_LENGTH - 256) \<Longrightarrow>
     generation_loop api vocab mc m i s = s"
  by (subst generation_loop.simps) auto

lemma generation_loop_next:
  "i < m \<Longrightarrow> response_pos s < MAX_RESPONSE_LENGTH - 256 \<Longrightarrow>
   loop_body api vocab mc s = (Next, s') \<Longrightarrow>
     generation_loop api vocab mc m i s = generation_loop api vocab mc m (i + 1) s'"
  by (subst generation_loop.simps) simp

lemma generation_loop_break:
  "i < m \<Longrightarrow> response_pos s < MAX_RESPONSE_LENGTH - 256 \<Longrightarrow>
   loop_body api vocab mc s = (ex, s') \<Longrightarrow> ex \<noteq> Next \<Longrightarrow>
     generation_loop api vocab mc m i s = s'"
  by (subst generation_loop.simps) (cases ex; simp)

lemma iteration_state_loop:
  "iteration_state api vocab mc m k s0 = Some s \<Longrightarrow>
     generation_loop api vocab mc m 0 s0 = generation_loop api vocab mc m (int k) s"
proof (induction k arbitrary: s)
  case 0
  then show ?case by simp
next
  case (Suc k)
  from Suc.prems obtain s1 where
    s1: "iteration_state api vocab mc m k s0 = Some s1"
    and c: "int k < m" "response_pos s1 < MAX_RESPONSE_LENGTH - 256"
    and b: "loop_body api vocab mc s1 = (Next, s)"
    by (auto split: option.splits if_splits prod.splits loop_exit.splits)
  have "generation_loop api vocab mc m 0 s0 = generation_loop api vocab mc m (int k) s1"
    using Suc.IH [OF s1] .
  also have "\<dots> = generation_loop api vocab mc m (int k + 1) s"
    using generation_loop_next [OF c b] .
  finally show ?case by (simp add: add.commute)
qed

section \<open>Counting samples\<close>

lemma loop_body_sample_calls:
  assumes "loop_body api vocab mc s = (ex, s')"
  shows "sample_calls (trace (world s')) = sample_calls (trace (world s)) + 1"
  using loop_body_trace [OF assms] by (auto simp: sample_calls_def split: if_splits)

lemma generation_loop_sample_calls_le:
  "sample_calls (trace (world (generation_loop api vocab mc m i s)))
     \<le> sample_calls (trace (world s)) + nat (m - i)"
proof (induction api vocab mc m i s rule: generation_loop.induct)
  case (1 api vocab mc m i s)
  show ?case
  proof (cases "i < m \<and> response_pos s < MAX_RESPONSE_LENGTH - 256")
    case False
    then show ?thesis by (simp add: generation_loop_stop)
  next
    case True
    obtain ex s' where b: "loop_body api vocab mc s = (ex, s')" by (cases "loop_body api vocab mc s")
    show ?thesis
    proof (cases "ex = Next")
      case True
      with b have b': "loop_body api vocab mc s = (Next, s')" by simp
      have "sample_calls (trace (world (generation_loop api vocab mc m (i + 1) s')))
              \<le> sample_calls (trace (world s')) + nat (m - (i + 1))"
        using "1.IH" [OF \<open>i < m \<and> response_pos s < MAX_RESPONSE_LENGTH - 256\<close> b' [symmetric] refl] .
      moreover have "nat (m - i) = nat (m - (i + 1)) + 1"
        using \<open>i < m \<and> response_pos s < MAX_RESPONSE_LENGTH - 256\<close> by arith
      ultimately show ?thesis
        using loop_body_sample_calls [OF b'] generation_loop_next [OF _ _ b', of i m]
          \<open>i < m \<and> response_pos s < MAX_RESPONSE_LENGTH - 256\<close>
        by simp
    next
      case False
      have "generation_loop api vocab mc m i s = s'"
        using generation_loop_break [OF _ _ b False, of i m]
          \<open>i < m \<and> response_pos s < MAX_RESPONSE_LENGTH - 256\<close> by simp
      moreover have "1 \<le> nat (m - i)"
        using \<open>i < m \<and> response_pos s < MAX_RESPONSE_LENGTH - 256\<close> by arith
      ultimately show ?thesis using loop_body_sample_calls [OF b] by simp
    qed
  qed
qed

section \<open>Positions\<close>

lemma int32_add_small:
  "0 \<le> a \<Longrightarrow> a < 8192 \<Longrightarrow> 0 < b \<Longrightarrow> b \<le> 256 \<Longrightarrow> int32_add a b = a + b"
  unfolding int32_add_def by (rule signed_take_bit_int_eq_self) simp_all

lemma loop_body_position:
  assumes b: "loop_body api vocab mc s = (ex, s')"
    and pc: "\<forall>t e. fst (llama_token_to_piece api vocab t 256 e) \<le> L"
    and L: "0 \<le> L" "L \<le> 256"
    and pos: "0 \<le> response_pos s" "response_pos s < MAX_RESPONSE_LENGTH - 256"
    and len: "length (response s) \<le> nat (response_pos s)"
  shows "response_pos s \<le> response_pos s' \<and> response_pos s' \<le> response_pos s + L
         \<and> response_pos s' < MAX_RESPONSE_LENGTH - 1
         \<and> length (response s') \<le> nat (response_pos s')"
proof -
  let ?t = "fst (llama_sampler_sample api (sampler mc) (ctx mc) (engine (world s)))"
  let ?w1 = "snd (call_sample api (sampler mc) (ctx mc) (world s))"
  let ?w2 = "void_call api (Accept (sampler mc) ?t) ?w1"
  let ?p = "llama_token_to_piece api vocab ?t 256 (engine ?w2)"
  have le: "fst ?p \<le> L" using pc by blast
  show ?thesis
  proof (cases "?t = llama_token_eos api (model mc)")
    case True
    then have "s' = s\<lparr>world := ?w1\<rparr>" using b by (simp add: loop_body_eos)
    then show ?thesis using pos len L by (simp add: MAX_RESPONSE_LENGTH_def)
  next
    case False
    show ?thesis
    proof (cases "fst ?p > 0 \<and> int32_add (response_pos s) (fst ?p) < MAX_RESPONSE_LENGTH - 1")
      case True
      then have eq: "int32_add (response_pos s) (fst ?p) = response_pos s + fst ?p"
        using pos le L by (intro int32_add_small) (simp_all add: MAX_RESPONSE_LENGTH_def)
      have r: "response_pos s' = response_pos s + fst ?p"
        and t: "response s' = response s @ take (nat (fst ?p)) (snd ?p)"
        using b False True eq
        by (auto simp: loop_body_def call_sample_eq call_decode_eq Let_def
                 split: prod.splits if_splits)
      have "length (response s') \<le> length (response s) + nat (fst ?p)"
        unfolding t by simp
      then show ?thesis using r True eq le pos len by auto
    next
      case F2: False
      have r: "response_pos s' = response_pos s" and t: "response s' = response s"
        using b False F2
        by (auto simp: loop_body_def call_sample_eq call_decode_eq Let_def
                 split: prod.splits if_splits)
      then show ?thesis using pos len L by (simp add: MAX_RESPONSE_LENGTH_def)
    qed
  qed
qed

lemma generation_loop_position:
  "\<forall>t e. fst (llama_token_to_piece api vocab t 256 e) \<le> 256 \<Longrightarrow>
         0 \<le> response_pos s \<Longrightarrow> response_pos s < MAX_RESPONSE_LENGTH - 1 \<Longrightarrow>
         length (response s) \<le> nat (response_pos s) \<Longrightarrow>
         0 \<le> response_pos (generation_loop api vocab mc m i s)
         \<and> response_pos (generation_loop api vocab mc m i s) < MAX_RESPONSE_LENGTH - 1
         \<and> length (response (generation_loop api vocab mc m i s))
             \<le> nat (response_pos (generation_loop api vocab mc m i s))"
proof (induction api vocab mc m i s rule: generation_loop.induct)
  case (1 api vocab mc m i s)
  show ?case
  proof (cases "i < m \<and> response_pos s < MAX_RESPONSE_LENGTH - 256")
    case False
    then show ?thesis using "1.prems" by (simp add: generation_loop_stop)
  next
    case True
    obtain ex s' where b: "loop_body api vocab mc s = (ex, s')"
      by (cases "loop_body api vocab mc s")
    have p: "response_pos s \<le> response_pos s' \<and> response_pos s' \<le> response_pos s + 256
         \<and> response_pos s' < MAX_RESPONSE_LENGTH - 1
         \<and> length (response s') \<le> nat (response_pos s')"
      using loop_body_position [OF b "1.prems"(1) _ _ "1.prems"(2) _ "1.prems"(4)] True
      by simp
    show ?thesis
    proof (cases "ex = Next")
      case True
      with b have b': "loop_body api vocab mc s = (Next, s')" by simp
      have "generation_loop api vocab mc m i s = generation_loop api vocab mc m (i + 1) s'"
        using generation_loop_next [OF _ _ b', of i m]
          \<open>i < m \<and> response_pos s < MAX_RESPONSE_LENGTH - 256\<close> by simp
      moreover have "0 \<le> response_pos s'" using p "1.prems" by simp
      ultimately show ?thesis
        using "1.IH" [OF \<open>i < m \<and> response_pos s < MAX_RESPONSE_LENGTH - 256\<close> b' [symmetric] refl
                         "1.prems"(1)] p
        by simp
    next
      case False
      have "generation_loop api vocab mc m i s = s'"
        using generation_loop_break [OF _ _ b False, of i m] True by simp
      then show ?thesis using p "1.prems" by simp
    qed
  qed
qed

section \<open>Before the loop\<close>

lemma validate_request_Inr:
  "validate_request api h p w = Inr (mc, t) \<Longrightarrow>
     h \<noteq> 0 \<and> heap w h = Some mc \<and> model mc \<noteq> 0 \<and> ctx mc \<noteq> 0 \<and> sampler mc \<noteq> 0
     \<and> (\<exists>j. p = Some j \<and> GetStringUTFChars api j (engine w) = Some t)
     \<and> 0 < strlen t \<and> strlen t \<le> MAX_PROMPT_LENGTH"
  by (auto simp: validate_request_def split: if_splits option.splits)

lemma prime_prompt_sample_calls:
  "sample_calls (trace (snd (prime_prompt api mc vocab ps t n w))) = sample_calls (trace w)"
  by (auto simp: prime_prompt_def call_tokenize_def call_decode_eq call_malloc_def
        sample_calls_def split: prod.splits)

lemma prime_prompt_decode_calls:
  "prime_prompt api mc vocab ps t n w = (Inr u, w') \<Longrightarrow>
     decode_calls (trace w') = decode_calls (trace w) + 1"
  by (auto simp: prime_prompt_def call_tokenize_def call_decode_eq call_malloc_def
        decode_calls_def split: prod.splits if_splits)

lemma call_malloc_trace [simp]: "trace (snd (call_malloc api w)) = trace w"
  by (simp add: call_malloc_def split: prod.splits)

lemma enter_loop_Inr:
  assumes "enter_loop v api h p w = (Inr (mc, vocab), w3)"
  shows "h \<noteq> 0 \<and> heap w h = Some mc \<and> model mc \<noteq> 0 \<and> ctx mc \<noteq> 0 \<and> sampler mc \<noteq> 0
         \<and> sample_calls (trace w3) = sample_calls (trace w)
         \<and> decode_calls (trace w3) = decode_calls (trace w) + 1"
proof (cases v)
  case Jni
  with assms obtain t where v: "validate_request api h p w = Inr (mc, t)"
    by (auto simp: enter_loop_def before_loop_def Let_def
          split: sum.splits prod.splits if_splits)
  let ?w1 = "void_call api (MemoryClear (ctx mc)) w"
  let ?w2 = "snd (call_malloc api ?w1)"
  from assms Jni v obtain u vo ps n where
    pp: "prime_prompt api mc vo ps t n ?w2 = (Inr u, w3)"
    by (auto simp: enter_loop_def before_loop_def Let_def
          split: sum.splits prod.splits if_splits)
  show ?thesis
    using validate_request_Inr [OF v] prime_prompt_decode_calls [OF pp]
      prime_prompt_sample_calls [of api mc vo ps t n ?w2] pp
    by (simp add: sample_calls_def decode_calls_def)
next
  case (JniNew m)
  with assms obtain t where v: "validate_request api h p w = Inr (mc, t)"
    by (auto simp: enter_loop_def before_loop_new_def Let_def
          split: sum.splits prod.splits if_splits)
  let ?w1 = "void_call api (MemoryClear (ctx mc)) w"
  from assms JniNew v obtain u vo ps n where
    pp: "prime_prompt api mc vo ps t n ?w1 = (Inr u, w3)"
    by (auto simp: enter_loop_def before_loop_new_def Let_def
          split: sum.splits prod.splits if_splits)
  show ?thesis
    using validate_request_Inr [OF v] prime_prompt_decode_calls [OF pp]
      prime_prompt_sample_calls [of api mc vo ps t n ?w1] pp
    by (simp add: sample_calls_def decode_calls_def)
qed

lemma before_loop_new_sample_calls:
  "sample_calls (trace (snd (before_loop_new api h p w))) = sample_calls (trace w)"
proof (cases "validate_request api h p w")
  case (Inl err)
  then show ?thesis by (simp add: before_loop_new_def)
next
  case (Inr x)
  obtain mc t where x: "x = (mc, t)" by (cases x)
  let ?w1 = "void_call api (MemoryClear (ctx mc)) w"
  let ?n = "llama_n_ctx api (ctx mc) (engine ?w1)"
  have "snd (before_loop_new api h p w)
          = snd (prime_prompt api mc (model mc) False t ?n ?w1)"
    using Inr x by (simp add: before_loop_new_def Let_def split: prod.splits sum.splits)
  then show ?thesis
    using prime_prompt_sample_calls [of api mc "model mc" False t ?n ?w1]
    by (simp add: sample_calls_def)
qed

lemma generate_reached:
  "enter_loop v api h p w = (Inr (mc, vocab), w3) \<Longrightarrow>
     generate v api h p w = generate_response api vocab mc (loop_bound v) w3"
  by (cases v) (simp_all add: generate_def enter_loop_def loop_bound_def
       generateText_def generateText_new_def)

lemma generate_failed:
  "enter_loop v api h p w = (Inl err, w') \<Longrightarrow> generate v api h p w = (Inl err, w')"
  by (cases v) (simp_all add: generate_def enter_loop_def generateText_def generateText_new_def)

lemma generate_Inr_reached:
  assumes "fst (generate v api h p w) = Inr text"
  obtains mc vocab w3 where "enter_loop v api h p w = (Inr (mc, vocab), w3)"
proof (cases "enter_loop v api h p w")
  case (Pair r w')
  show ?thesis
  proof (cases r)
    case (Inl err)
    with Pair assms show ?thesis using generate_failed [of v api h p w err w'] by simp
  next
    case (Inr x)
    with Pair that show ?thesis by (cases x) simp
  qed
qed

section \<open>The response buffer\<close>

lemma iteration_state_position:
  assumes pc: "\<forall>t e. fst (llama_token_to_piece api vocab t 256 e) \<le> 256"
  shows "iteration_state api vocab mc m k (initial_state w) = Some s \<Longrightarrow>
           0 \<le> response_pos s \<and> response_pos s < MAX_RESPONSE_LENGTH - 1
           \<and> length (response s) \<le> nat (response_pos s)"
proof (induction k arbitrary: s)
  case 0
  then show ?case by (auto simp: initial_state_def MAX_RESPONSE_LENGTH_def)
next
  case (Suc k)
  from Suc.prems obtain s1 where
    s1: "iteration_state api vocab mc m k (initial_state w) = Some s1"
    and c: "response_pos s1 < MAX_RESPONSE_LENGTH - 256"
    and b: "loop_body api vocab mc s1 = (Next, s)"
    by (auto split: option.splits if_splits prod.splits loop_exit.splits)
  show ?case
    using loop_body_position [OF b pc _ _ _ c] Suc.IH [OF s1] by simp
qed

text \<open>
  Claim C2. Whatever the engine samples, as long as \<open>llama_token_to_piece\<close> honours
  the 256-byte buffer it is given, the write position stays within the response buffer:
  at the end of the loop \<open>0 \<le> response_pos \<le> MAX_RESPONSE_LENGTH - 2\<close>, so the
  terminator is written inside the 8192 bytes, and the bytes copied never outnumber
  \<open>response_pos\<close>. Every iteration that runs starts more than 256 below capacity,
  advances the position by at most 256 and leaves it below \<open>MAX_RESPONSE_LENGTH - 1\<close>.
\<close>

theorem response_buffer_within_capacity:
  assumes pc: "\<forall>t e. fst (llama_token_to_piece api vocab t 256 e) \<le> 256"
  shows "(let s = generation_loop api vocab mc m 0 (initial_state w) in
            0 \<le> response_pos s \<and> response_pos s < MAX_RESPONSE_LENGTH - 1
            \<and> length (response s) \<le> nat (response_pos s))
       \<and> (\<forall>k s. iteration_state api vocab mc m k (initial_state w) = Some s
                 \<and> int k < m \<and> response_pos s < MAX_RESPONSE_LENGTH - 256 \<longrightarrow>
             (let s' = snd (loop_body api vocab mc s) in
                response_pos s' \<le> response_pos s + 256
                \<and> response_pos s' < MAX_RESPONSE_LENGTH - 1
                \<and> length (response s') \<le> nat (response_pos s')))"
proof -
  have "0 \<le> response_pos (initial_state w)"
    "response_pos (initial_state w) < MAX_RESPONSE_LENGTH - 1"
    "length (response (initial_state w)) \<le> nat (response_pos (initial_state w))"
    by (simp_all add: initial_state_def MAX_RESPONSE_LENGTH_def)
  from generation_loop_position [OF pc this]
  have final: "let s = generation_loop api vocab mc m 0 (initial_state w) in
            0 \<le> response_pos s \<and> response_pos s < MAX_RESPONSE_LENGTH - 1
            \<and> length (response s) \<le> nat (response_pos s)"
    by (simp add: Let_def)
  have step: "response_pos (snd (loop_body api vocab mc s)) \<le> response_pos s + 256
                \<and> response_pos (snd (loop_body api vocab mc s)) < MAX_RESPONSE_LENGTH - 1
                \<and> length (response (snd (loop_body api vocab mc s)))
                    \<le> nat (response_pos (snd (loop_body api vocab mc s)))"
    if k: "iteration_state api vocab mc m k (initial_state w) = Some s"
      and c: "response_pos s < MAX_RESPONSE_LENGTH - 256" for k s
  proof -
    obtain ex s' where b: "loop_body api vocab mc s = (ex, s')"
      by (cases "loop_body api vocab mc s")
    show ?thesis
      using loop_body_position [OF b pc _ _ _ c] iteration_state_position [OF pc k] b
      by simp
  qed
  show ?thesis unfolding Let_def using final [unfolded Let_def] step by blast
qed

theorem response_buffer_within_capacity_witness:
  "(\<forall>t e. fst (llama_token_to_piece demo_platform 10 t 256 e) \<le> 256)
   \<and> response_pos (generation_loop demo_platform 10 demo_session 5 0
                     (initial_state (demo_world [1, 2]))) < MAX_RESPONSE_LENGTH - 1
   \<and> iteration_state demo_platform 10 demo_session 5 0 (initial_state (demo_world [1, 2]))
       = Some (initial_state (demo_world [1, 2]))
   \<and> (0::int) < 5
   \<and> response_pos (initial_state (demo_world [1, 2])) < MAX_RESPONSE_LENGTH - 256
   \<and> response_pos (snd (loop_body demo_platform 10 demo_session
                           (initial_state (demo_world [1, 2]))))
        \<le> response_pos (initial_state (demo_world [1, 2])) + 256"
proof -
  have pc: "\<forall>t e. fst (llama_token_to_piece demo_platform 10 t 256 e) \<le> 256"
    by (simp add: demo_platform_def)
  have c: "response_pos (initial_state (demo_world [1, 2])) < MAX_RESPONSE_LENGTH - 256"
    by (simp add: initial_state_def MAX_RESPONSE_LENGTH_def)
  note T = response_buffer_within_capacity [OF pc, of demo_session 5 "demo_world [1, 2]"]
  show ?thesis
    using T [THEN conjunct1]
      T [THEN conjunct2, rule_format, of 0 "initial_state (demo_world [1, 2])"] pc c
    by (simp add: Let_def)
qed

section \<open>The bound on generated tokens\<close>

lemma loop_body_steady:
  assumes ne: "\<forall>e. fst (llama_sampler_sample api (sampler mc) (ctx mc) e)
                  \<noteq> llama_token_eos api (model mc)"
    and dec: "\<forall>b e. fst (llama_decode api (ctx mc) b e) = 0"
  shows "fst (loop_body api vocab mc s) = Next"
  using ne [rule_format, of "engine (world s)"] dec
  by (simp add: loop_body_def call_sample_eq call_decode_eq Let_def split: prod.splits)

lemma generation_loop_sample_calls_eq:
  "\<forall>e. fst (llama_sampler_sample api (sampler mc) (ctx mc) e) \<noteq> llama_token_eos api (model mc)
   \<Longrightarrow> \<forall>b e. fst (llama_decode api (ctx mc) b e) = 0
   \<Longrightarrow> \<forall>t e. fst (llama_token_to_piece api vocab t 256 e) \<le> 15
   \<Longrightarrow> 0 \<le> i \<Longrightarrow> i \<le> m \<Longrightarrow> m \<le> 512
   \<Longrightarrow> 0 \<le> response_pos s \<Longrightarrow> response_pos s \<le> 15 * i
   \<Longrightarrow> length (response s) \<le> nat (response_pos s)
   \<Longrightarrow> sample_calls (trace (world (generation_loop api vocab mc m i s)))
         = sample_calls (trace (world s)) + nat (m - i)"
proof (induction api vocab mc m i s rule: generation_loop.induct)
  case (1 api vocab mc m i s)
  show ?case
  proof (cases "i < m")
    case False
    then show ?thesis using "1.prems" by (simp add: generation_loop_stop)
  next
    case True
    have c: "response_pos s < MAX_RESPONSE_LENGTH - 256"
      using True "1.prems" by (simp add: MAX_RESPONSE_LENGTH_def)
    obtain s' where b: "loop_body api vocab mc s = (Next, s')"
      using loop_body_steady [OF "1.prems"(1,2), of vocab s]
      by (cases "loop_body api vocab mc s") simp
    have p: "response_pos s \<le> response_pos s' \<and> response_pos s' \<le> response_pos s + 15
         \<and> response_pos s' < MAX_RESPONSE_LENGTH - 1
         \<and> length (response s') \<le> nat (response_pos s')"
      using loop_body_position [OF b "1.prems"(3) _ _ "1.prems"(7) c "1.prems"(9)] by simp
    have "sample_calls (trace (world (generation_loop api vocab mc m (i + 1) s')))
            = sample_calls (trace (world s')) + nat (m - (i + 1))"
      using "1.IH" [OF conjI [OF True c] b [symmetric] refl "1.prems"(1,2,3)] p "1.prems" True
      by simp
    moreover have "nat (m - i) = nat (m - (i + 1)) + 1" using True by arith
    ultimately show ?thesis
      using loop_body_sample_calls [OF b] generation_loop_next [OF True c b] by simp
  qed
qed

lemma sanitize_maxTokens_range:
  "1 \<le> sanitize_maxTokens m \<and> sanitize_maxTokens m \<le> 512"
  by (simp add: sanitize_maxTokens_def DEFAULT_MAX_TOKENS_def)

lemma generate_result:
  "generate_response api vocab mc m w =
     (Inr (NewStringUTF (response (generation_loop api vocab mc m 0 (initial_state w)))),
      world (generation_loop api vocab mc m 0 (initial_state w)))"
  by (simp add: generate_response_def Let_def)

text \<open>
  Claim C3. In \<open>llama_jni_new.c\<close>, a \<open>maxTokens\<close> that is zero, negative or above 512
  gives the loop the bound 512, and the call then behaves exactly as with
  \<open>maxTokens = 512\<close> (nothing is raised on its account); a \<open>maxTokens\<close> in \<open>[1, 512]\<close>
  is the bound itself. The bound is the bound of the loop: a call never samples more
  than that many tokens, and samples exactly that many when it returns and the engine
  never ends the generation early (no end token, no failing decode, pieces of at most
  15 bytes, which cannot fill the buffer in 512 iterations).
\<close>

theorem maxTokens_sanitized_and_honoured:
  "(maxTokens \<le> 0 \<or> maxTokens > 512 \<longrightarrow>
      sanitize_maxTokens maxTokens = 512
      \<and> generateText_new api h p maxTokens w = generateText_new api h p 512 w)
   \<and> (1 \<le> maxTokens \<and> maxTokens \<le> 512 \<longrightarrow> sanitize_maxTokens maxTokens = maxTokens)
   \<and> sample_calls (trace (snd (generateText_new api h p maxTokens w)))
        \<le> sample_calls (trace w) + nat (sanitize_maxTokens maxTokens)
   \<and> (heap w h = Some mc
        \<and> (\<forall>e. fst (llama_sampler_sample api (sampler mc) (ctx mc) e)
                  \<noteq> llama_token_eos api (model mc))
        \<and> (\<forall>b e. fst (llama_decode api (ctx mc) b e) = 0)
        \<and> (\<forall>t e. fst (llama_token_to_piece api (model mc) t 256 e) \<le> 15)
        \<and> fst (generateText_new api h p maxTokens w) = Inr text \<longrightarrow>
      sample_calls (trace (snd (generateText_new api h p maxTokens w)))
        = sample_calls (trace w) + nat (sanitize_maxTokens maxTokens))"
proof (intro conjI impI)
  assume "maxTokens \<le> 0 \<or> maxTokens > 512"
  then show "sanitize_maxTokens maxTokens = 512"
    by (auto simp: sanitize_maxTokens_def DEFAULT_MAX_TOKENS_def)
  then show "generateText_new api h p maxTokens w = generateText_new api h p 512 w"
    by (simp add: generateText_new_def sanitize_maxTokens_def DEFAULT_MAX_TOKENS_def)
next
  assume "1 \<le> maxTokens \<and> maxTokens \<le> 512"
  then show "sanitize_maxTokens maxTokens = maxTokens"
    by (simp add: sanitize_maxTokens_def DEFAULT_MAX_TOKENS_def)
next
  show "sample_calls (trace (snd (generateText_new api h p maxTokens w)))
          \<le> sample_calls (trace w) + nat (sanitize_maxTokens maxTokens)"
  proof (cases "enter_loop (JniNew maxTokens) api h p w")
    case (Pair r w')
    show ?thesis
    proof (cases r)
      case (Inl err)
      then have "before_loop_new api h p w = (Inl err, w')"
        using Pair by (simp add: enter_loop_def)
      moreover from this have "sample_calls (trace w') = sample_calls (trace w)"
        using before_loop_new_sample_calls [of api h p w] by simp
      ultimately show ?thesis by (simp add: generateText_new_def)
    next
      case (Inr x)
      obtain mc' vocab where x: "x = (mc', vocab)" by (cases x)
      have e: "enter_loop (JniNew maxTokens) api h p w = (Inr (mc', vocab), w')"
        using Pair Inr x by simp
      show ?thesis
        using generate_reached [OF e] enter_loop_Inr [OF e]
          generation_loop_sample_calls_le
            [of api vocab mc' "sanitize_maxTokens maxTokens" 0 "initial_state w'"]
        by (simp add: generate_def loop_bound_def generate_result initial_state_def)
    qed
  qed
next
  assume a: "heap w h = Some mc
        \<and> (\<forall>e. fst (llama_sampler_sample api (sampler mc) (ctx mc) e)
                  \<noteq> llama_token_eos api (model mc))
        \<and> (\<forall>b e. fst (llama_decode api (ctx mc) b e) = 0)
        \<and> (\<forall>t e. fst (llama_token_to_piece api (model mc) t 256 e) \<le> 15)
        \<and> fst (generateText_new api h p maxTokens w) = Inr text"
  then have "fst (generate (JniNew maxTokens) api h p w) = Inr text"
    by (simp add: generate_def)
  then obtain mc' vocab w3 where
    e: "enter_loop (JniNew maxTokens) api h p w = (Inr (mc', vocab), w3)"
    by (rule generate_Inr_reached)
  have mc: "mc' = mc" using enter_loop_Inr [OF e] a by simp
  have vocab: "vocab = model mc"
    using e mc
    by (auto simp: enter_loop_def before_loop_new_def Let_def split: sum.splits prod.splits)
  have "sample_calls (trace (world (generation_loop api (model mc) mc
            (sanitize_maxTokens maxTokens) 0 (initial_state w3))))
         = sample_calls (trace (world (initial_state w3)))
             + nat (sanitize_maxTokens maxTokens - 0)"
    using a sanitize_maxTokens_range [of maxTokens]
    by (intro generation_loop_sample_calls_eq) (simp_all add: initial_state_def)
  then show "sample_calls (trace (snd (generateText_new api h p maxTokens w)))
        = sample_calls (trace w) + nat (sanitize_maxTokens maxTokens)"
    using generate_reached [OF e] enter_loop_Inr [OF e] mc vocab
    by (simp add: generate_def loop_bound_def generate_result initial_state_def)
qed

lemmas run_defs = generate_def enter_loop_def loop_bound_def
  generateText_new_def generateText_def before_loop_new_def before_loop_def
  validate_request_def prime_prompt_def generate_response_def initial_state_def
  generation_loop.simps loop_body_def
  call_sample_def call_decode_def call_tokenize_def call_malloc_def void_call_def
  int32_add_def sanitize_maxTokens_def MAX_RESPONSE_LENGTH_def MAX_PROMPT_LENGTH_def
  DEFAULT_MAX_TOKENS_def strlen_def c_str_def NewStringUTF_def
  demo_platform_def steady_platform_def demo_world_def demo_session_def
  sample_calls_def decode_calls_def Let_def

theorem maxTokens_sanitized_and_honoured_witness:
  "sanitize_maxTokens 0 = 512 \<and> sanitize_maxTokens (- 7) = 512 \<and> sanitize_maxTokens 600 = 512
   \<and> generateText_new demo_platform 1 (Some ''Hi'') 600 (demo_world [1, 2])
       = generateText_new demo_platform 1 (Some ''Hi'') 512 (demo_world [1, 2])
   \<and> sanitize_maxTokens 3 = 3
   \<and> fst (generateText_new steady_platform 1 (Some ''Hello'') 3 (demo_world [])) = Inr ''aaa''
   \<and> sample_calls (trace (snd (generateText_new steady_platform 1 (Some ''Hello'') 3
                                   (demo_world [])))) = 3"
proof -
  have r: "fst (generateText_new steady_platform 1 (Some ''Hello'') 3 (demo_world []))
             = Inr ''aaa''"
    by (simp add: run_defs)
  have h: "heap (demo_world []) 1 = Some demo_session
        \<and> (\<forall>e. fst (llama_sampler_sample steady_platform (sampler demo_session)
                        (ctx demo_session) e)
                  \<noteq> llama_token_eos steady_platform (model demo_session))
        \<and> (\<forall>b e. fst (llama_decode steady_platform (ctx demo_session) b e) = 0)
        \<and> (\<forall>t e. fst (llama_token_to_piece steady_platform (model demo_session) t 256 e)
                    \<le> 15)"
    by (simp add: steady_platform_def demo_platform_def demo_world_def)
  note T3 = maxTokens_sanitized_and_honoured
              [of 3 steady_platform 1 "Some ''Hello''" "demo_world []" demo_session "''aaa''"]
  have "sample_calls (trace (snd (generateText_new steady_platform 1 (Some ''Hello'') 3
                                   (demo_world [])))) = 3"
    using T3 [THEN conjunct2, THEN conjunct2, THEN conjunct2] h r
      T3 [THEN conjunct2, THEN conjunct1]
    by (simp add: demo_world_def sample_calls_def)
  moreover have "sanitize_maxTokens 3 = 3"
    using T3 [THEN conjunct2, THEN conjunct1] by simp
  moreover have "sanitize_maxTokens 0 = 512"
    using maxTokens_sanitized_and_honoured
            [of 0 demo_platform 1 "Some ''Hi''" "demo_world [1, 2]", THEN conjunct1]
    by simp
  moreover have "sanitize_maxTokens (- 7) = 512"
    using maxTokens_sanitized_and_honoured
            [of "- 7" demo_platform 1 "Some ''Hi''" "demo_world [1, 2]", THEN conjunct1]
    by simp
  moreover have "sanitize_maxTokens 600 = 512
     \<and> generateText_new demo_platform 1 (Some ''Hi'') 600 (demo_world [1, 2])
       = generateText_new demo_platform 1 (Some ''Hi'') 512 (demo_world [1, 2])"
    using maxTokens_sanitized_and_honoured
            [of 600 demo_platform 1 "Some ''Hi''" "demo_world [1, 2]", THEN conjunct1]
    by simp
  ultimately show ?thesis using r by simp
qed

section \<open>How an iteration ends the loop\<close>

lemma generate_at_iteration:
  assumes e: "enter_loop v api h p w = (Inr (mc, vocab), w3)"
    and k: "iteration_state api vocab mc (loop_bound v) k (initial_state w3) = Some s"
    and c: "int k < loop_bound v" "response_pos s < MAX_RESPONSE_LENGTH - 256"
    and b: "loop_body api vocab mc s = (ex, s')"
    and ex: "ex \<noteq> Next"
  shows "generate v api h p w = (Inr (NewStringUTF (response s')), world s')"
proof -
  have "generation_loop api vocab mc (loop_bound v) 0 (initial_state w3)
          = generation_loop api vocab mc (loop_bound v) (int k) s"
    using iteration_state_loop [OF k] .
  also have "\<dots> = s'" using generation_loop_break [OF c b ex] .
  finally show ?thesis using generate_reached [OF e] by (simp add: generate_result)
qed

lemma loop_body_decode_failed:
  assumes "loop_body api vocab mc s = (DecodeFailed, s')"
  shows "response s' =
           (let t = fst (llama_sampler_sample api (sampler mc) (ctx mc) (engine (world s)));
                w2 = void_call api (Accept (sampler mc) t)
                       (snd (call_sample api (sampler mc) (ctx mc) (world s)));
                piece = llama_token_to_piece api vocab t 256 (engine w2)
            in if fst piece > 0
                  \<and> int32_add (response_pos s) (fst piece) < MAX_RESPONSE_LENGTH - 1
               then response s @ take (nat (fst piece)) (snd piece)
               else response s)"
  using assms
  by (auto simp: loop_body_def call_sample_eq call_decode_eq Let_def
           split: prod.splits if_splits)

text \<open>
  Claim C1, as amended. When the decode of the token sampled in iteration \<open>k\<close> fails,
  \<open>generateText\<close> returns normally, and what it returns is the buffer as iteration \<open>k\<close>
  left it: the text accumulated by iterations \<open>0..k-1\<close> followed by the piece of the
  token of iteration \<open>k\<close>, which was copied (when it fit) before the decode was tried.
\<close>

theorem decode_failure_returns_text_through_failed_iteration:
  assumes "enter_loop v api h p w = (Inr (mc, vocab), w3)"
    and "iteration_state api vocab mc (loop_bound v) k (initial_state w3) = Some s"
    and "int k < loop_bound v" and "response_pos s < MAX_RESPONSE_LENGTH - 256"
    and "loop_body api vocab mc s = (DecodeFailed, s')"
  shows "generate v api h p w = (Inr (NewStringUTF (response s')), world s')
       \<and> response s' =
           (let t = fst (llama_sampler_sample api (sampler mc) (ctx mc) (engine (world s)));
                w2 = void_call api (Accept (sampler mc) t)
                       (snd (call_sample api (sampler mc) (ctx mc) (world s)));
                piece = llama_token_to_piece api vocab t 256 (engine w2)
            in if fst piece > 0
                  \<and> int32_add (response_pos s) (fst piece) < MAX_RESPONSE_LENGTH - 1
               then response s @ take (nat (fst piece)) (snd piece)
               else response s)"
  using generate_at_iteration [OF assms(1-5)] loop_body_decode_failed [OF assms(5)]
  by simp

theorem decode_failure_returns_text_through_failed_iteration_witness:
  "fst (enter_loop (JniNew 5) demo_platform 1 (Some ''Hello'') (demo_world [1, 9, 2]))
     = Inr (demo_session, 10)
   \<and> fst (generate (JniNew 5) demo_platform 1 (Some ''Hello'') (demo_world [1, 9, 2]))
       = Inr ''az''"
proof -
  define w3 where
    "w3 = snd (enter_loop (JniNew 5) demo_platform 1 (Some ''Hello'') (demo_world [1, 9, 2]))"
  define s where "s = snd (loop_body demo_platform 10 demo_session (initial_state w3))"
  define s' where "s' = snd (loop_body demo_platform 10 demo_session s)"
  have e: "enter_loop (JniNew 5) demo_platform 1 (Some ''Hello'') (demo_world [1, 9, 2])
             = (Inr (demo_session, 10), w3)"
    unfolding w3_def by (simp add: run_defs)
  have k: "iteration_state demo_platform 10 demo_session (loop_bound (JniNew 5)) (Suc 0)
             (initial_state w3) = Some s"
    unfolding s_def w3_def by (simp add: run_defs)
  have c: "int (Suc 0) < loop_bound (JniNew 5)" "response_pos s < MAX_RESPONSE_LENGTH - 256"
    unfolding s_def w3_def by (simp_all add: run_defs)
  have b: "loop_body demo_platform 10 demo_session s = (DecodeFailed, s')"
    unfolding s'_def s_def w3_def by (simp add: run_defs)
  have r: "NewStringUTF (response s') = ''az''"
    unfolding s'_def s_def w3_def by (simp add: run_defs)
  show ?thesis
    using decode_failure_returns_text_through_failed_iteration [OF e k c b] e r by simp
qed

text \<open>
  The claim as written fails already at \<open>k = 0\<close>: the first sampled token is \<open>9\<close>, its
  piece \<open>z\<close> is copied, its decode fails, and the call returns \<open>z\<close>, not the empty text
  accumulated by the iterations before.
\<close>

theorem decode_failure_text_counterexample:
  "fst (enter_loop (JniNew 5) demo_platform 1 (Some ''Hello'') (demo_world [9]))
     = Inr (demo_session, 10)
   \<and> fst (loop_body demo_platform 10 demo_session
            (initial_state (snd (enter_loop (JniNew 5) demo_platform 1 (Some ''Hello'')
                                   (demo_world [9])))))
       = DecodeFailed
   \<and> response (initial_state (snd (enter_loop (JniNew 5) demo_platform 1 (Some ''Hello'')
                                     (demo_world [9])))) = []
   \<and> fst (generate (JniNew 5) demo_platform 1 (Some ''Hello'') (demo_world [9])) = Inr ''z''
   \<and> fst (generate Jni demo_platform 1 (Some ''Hello'') (demo_world [9])) = Inr ''z''"
  by (simp add: run_defs)

section \<open>The end token\<close>

lemma NewStringUTF_Nil [simp]: "NewStringUTF [] = []"
  by (simp add: NewStringUTF_def c_str_def)

text \<open>
  Claim C5. When the token sampled in iteration \<open>k\<close> is the end token, the call returns
  the text as it stood at the head of iteration \<open>k\<close> (the end token's piece is never
  asked for, let alone copied), and no decode call follows the sample. When this
  happens in iteration \<open>0\<close>, the call returns the empty string and has made exactly one
  decode call, the priming one.
\<close>

theorem end_token_stops_without_text_or_decode:
  assumes "enter_loop v api h p w = (Inr (mc, vocab), w3)"
    and "iteration_state api vocab mc (loop_bound v) k (initial_state w3) = Some s"
    and "int k < loop_bound v" and "response_pos s < MAX_RESPONSE_LENGTH - 256"
    and "fst (llama_sampler_sample api (sampler mc) (ctx mc) (engine (world s)))
           = llama_token_eos api (model mc)"
  shows "fst (generate v api h p w) = Inr (NewStringUTF (response s))
       \<and> decode_calls (trace (snd (generate v api h p w))) = decode_calls (trace (world s))
       \<and> (k = 0 \<longrightarrow>
            fst (generate v api h p w) = Inr []
            \<and> decode_calls (trace (snd (generate v api h p w))) = decode_calls (trace w) + 1)"
proof -
  let ?s' = "s\<lparr>world := snd (call_sample api (sampler mc) (ctx mc) (world s))\<rparr>"
  have b: "loop_body api vocab mc s = (EndOfGeneration, ?s')"
    using loop_body_eos [OF assms(5)] .
  have g: "generate v api h p w = (Inr (NewStringUTF (response ?s')), world ?s')"
    using generate_at_iteration [OF assms(1-4) b] by simp
  have d: "decode_calls (trace (world ?s')) = decode_calls (trace (world s))"
    by (simp add: call_sample_eq decode_calls_def)
  have "s = initial_state w3" if "k = 0" using that assms(2) by simp
  then have z: "response s = [] \<and> decode_calls (trace (world s)) = decode_calls (trace w) + 1"
    if "k = 0"
    using that enter_loop_Inr [OF assms(1)] by (simp add: initial_state_def)
  show ?thesis using g d z by simp
qed

theorem end_token_stops_without_text_or_decode_witness:
  "fst (enter_loop (JniNew 5) demo_platform 1 (Some ''Hello'') (demo_world []))
     = Inr (demo_session, 10)
   \<and> fst (llama_sampler_sample demo_platform 30 20 []) = llama_token_eos demo_platform 10
   \<and> fst (generate (JniNew 5) demo_platform 1 (Some ''Hello'') (demo_world [])) = Inr []
   \<and> decode_calls (trace (snd (generate (JniNew 5) demo_platform 1 (Some ''Hello'')
                                  (demo_world [])))) = 1"
proof -
  define w3 where
    "w3 = snd (enter_loop (JniNew 5) demo_platform 1 (Some ''Hello'') (demo_world []))"
  have e: "enter_loop (JniNew 5) demo_platform 1 (Some ''Hello'') (demo_world [])
             = (Inr (demo_session, 10), w3)"
    unfolding w3_def by (simp add: run_defs)
  have k: "iteration_state demo_platform 10 demo_session (loop_bound (JniNew 5)) 0
             (initial_state w3) = Some (initial_state w3)"
    by simp
  have c: "int 0 < loop_bound (JniNew 5)"
    "response_pos (initial_state w3) < MAX_RESPONSE_LENGTH - 256"
    by (simp_all add: run_defs)
  have t: "fst (llama_sampler_sample demo_platform (sampler demo_session) (ctx demo_session)
                  (engine (world (initial_state w3))))
             = llama_token_eos demo_platform (model demo_session)"
    unfolding w3_def by (simp add: run_defs)
  have t': "fst (llama_sampler_sample demo_platform 30 20 []) = llama_token_eos demo_platform 10"
    by (simp add: demo_platform_def)
  have d: "decode_calls (trace (demo_world [])) = 0"
    by (simp add: demo_world_def decode_calls_def)
  note T = end_token_stops_without_text_or_decode
             [OF e k c t, THEN conjunct2, THEN conjunct2, rule_format, OF refl]
  show ?thesis using T e t' d by simp
qed

section \<open>Accepted tokens\<close>

lemma loop_body_accept:
  assumes "loop_body api vocab mc s = (ex, s')"
    and "Accept q (llama_token_eos api (model mc)) \<in> set (trace (world s'))"
  shows "Accept q (llama_token_eos api (model mc)) \<in> set (trace (world s))"
  using loop_body_trace [OF assms(1)] assms(2) by (auto split: if_splits)

lemma generation_loop_accept:
  "Accept q (llama_token_eos api (model mc))
     \<in> set (trace (world (generation_loop api vocab mc m i s))) \<Longrightarrow>
   Accept q (llama_token_eos api (model mc)) \<in> set (trace (world s))"
proof (induction api vocab mc m i s rule: generation_loop.induct)
  case (1 api vocab mc m i s)
  show ?case
  proof (cases "i < m \<and> response_pos s < MAX_RESPONSE_LENGTH - 256")
    case False
    then show ?thesis using "1.prems" by (simp add: generation_loop_stop)
  next
    case True
    obtain ex s' where b: "loop_body api vocab mc s = (ex, s')"
      by (cases "loop_body api vocab mc s")
    show ?thesis
    proof (cases "ex = Next")
      case N: True
      with b have b': "loop_body api vocab mc s = (Next, s')" by simp
      have "generation_loop api vocab mc m i s = generation_loop api vocab mc m (i + 1) s'"
        using generation_loop_next [OF _ _ b', of i m] True by simp
      then have "Accept q (llama_token_eos api (model mc)) \<in> set (trace (world s'))"
        using "1.IH" [OF True b' [symmetric] refl] "1.prems" by simp
      then show ?thesis using loop_body_accept [OF b'] by simp
    next
      case False
      have "generation_loop api vocab mc m i s = s'"
        using generation_loop_break [OF _ _ b False, of i m] True by simp
      then show ?thesis using loop_body_accept [OF b] "1.prems" by simp
    qed
  qed
qed

lemma prime_prompt_accept:
  "Accept q t \<in> set (trace (snd (prime_prompt api mc vocab ps pt n w))) \<Longrightarrow>
     Accept q t \<in> set (trace w)"
  by (auto simp: prime_prompt_def call_tokenize_def call_decode_eq call_malloc_def
        split: prod.splits if_splits)

lemma enter_loop_prime:
  assumes "enter_loop v api h p w = (Inr (mc, vocab), w3)"
  obtains pt ps n w2 u where
    "validate_request api h p w = Inr (mc, pt)"
    "trace w2 = trace w @ [MemoryClear (ctx mc)]"
    "prime_prompt api mc vocab ps pt n w2 = (Inr u, w3)"
proof (cases v)
  case Jni
  with assms obtain pt where v: "validate_request api h p w = Inr (mc, pt)"
    by (auto simp: enter_loop_def before_loop_def Let_def
          split: sum.splits prod.splits if_splits)
  let ?w1 = "void_call api (MemoryClear (ctx mc)) w"
  obtain ok w2 where m: "call_malloc api ?w1 = (ok, w2)" by (cases "call_malloc api ?w1")
  have t: "trace w2 = trace w @ [MemoryClear (ctx mc)]"
    using call_malloc_trace [of api ?w1] m by simp
  from assms Jni v m obtain u ps n where
    "prime_prompt api mc vocab ps pt n w2 = (Inr u, w3)"
    by (auto simp: enter_loop_def before_loop_def Let_def
          split: sum.splits prod.splits if_splits)
  with v t that show ?thesis by blast
next
  case (JniNew m)
  with assms obtain pt where v: "validate_request api h p w = Inr (mc, pt)"
    by (auto simp: enter_loop_def before_loop_new_def Let_def
          split: sum.splits prod.splits if_splits)
  let ?w1 = "void_call api (MemoryClear (ctx mc)) w"
  have t: "trace ?w1 = trace w @ [MemoryClear (ctx mc)]" by simp
  from assms JniNew v obtain u ps n where
    "prime_prompt api mc vocab ps pt n ?w1 = (Inr u, w3)"
    by (auto simp: enter_loop_def before_loop_new_def Let_def
          split: sum.splits prod.splits if_splits)
  with v t that show ?thesis by blast
qed

lemma enter_loop_accept:
  assumes "enter_loop v api h p w = (Inr (mc, vocab), w3)"
    and "Accept q t \<in> set (trace w3)"
  shows "Accept q t \<in> set (trace w)"
proof -
  from assms(1) obtain pt ps n w2 u where
    t: "trace w2 = trace w @ [MemoryClear (ctx mc)]"
    and pp: "prime_prompt api mc vocab ps pt n w2 = (Inr u, w3)"
    by (rule enter_loop_prime)
  have "Accept q t \<in> set (trace w2)"
    using prime_prompt_accept [of q t api mc vocab ps pt n w2] pp assms(2) by simp
  then show ?thesis using t by simp
qed

text \<open>
  Claim C10. A call that reaches the loop never passes the end token to
  \<open>llama_sampler_accept\<close>: no accept of the end token is in the trace afterwards unless
  it was there before the call. When iteration \<open>k\<close> samples the end token, the world the
  call returns is the one \<open>llama_sampler_sample\<close> left: the platform's state is the
  state right after that sample, and the trace ends with the sample itself, with
  nothing after it.
\<close>

theorem end_token_never_accepted:
  assumes "enter_loop v api h p w = (Inr (mc, vocab), w3)"
    and "\<forall>q. Accept q (llama_token_eos api (model mc)) \<notin> set (trace w)"
  shows "(\<forall>q. Accept q (llama_token_eos api (model mc))
                 \<notin> set (trace (snd (generate v api h p w))))
       \<and> (\<forall>k s. iteration_state api vocab mc (loop_bound v) k (initial_state w3) = Some s
                 \<and> int k < loop_bound v \<and> response_pos s < MAX_RESPONSE_LENGTH - 256
                 \<and> fst (llama_sampler_sample api (sampler mc) (ctx mc) (engine (world s)))
                      = llama_token_eos api (model mc) \<longrightarrow>
             engine (snd (generate v api h p w))
               = snd (llama_sampler_sample api (sampler mc) (ctx mc) (engine (world s)))
             \<and> trace (snd (generate v api h p w))
               = trace (world s)
                   @ [Sample (sampler mc) (ctx mc) (llama_token_eos api (model mc))])"
proof (intro conjI allI impI)
  fix q
  show "Accept q (llama_token_eos api (model mc)) \<notin> set (trace (snd (generate v api h p w)))"
  proof
    assume "Accept q (llama_token_eos api (model mc))
              \<in> set (trace (snd (generate v api h p w)))"
    then have "Accept q (llama_token_eos api (model mc))
                 \<in> set (trace (world (generation_loop api vocab mc (loop_bound v) 0
                                        (initial_state w3))))"
      using generate_reached [OF assms(1)] by (simp add: generate_result)
    then have "Accept q (llama_token_eos api (model mc)) \<in> set (trace w3)"
      using generation_loop_accept [of q api mc vocab "loop_bound v" 0 "initial_state w3"]
      by (simp add: initial_state_def)
    then show False using enter_loop_accept [OF assms(1)] assms(2) by blast
  qed
next
  fix k s
  assume a: "iteration_state api vocab mc (loop_bound v) k (initial_state w3) = Some s
                 \<and> int k < loop_bound v \<and> response_pos s < MAX_RESPONSE_LENGTH - 256
                 \<and> fst (llama_sampler_sample api (sampler mc) (ctx mc) (engine (world s)))
                      = llama_token_eos api (model mc)"
  let ?s' = "s\<lparr>world := snd (call_sample api (sampler mc) (ctx mc) (world s))\<rparr>"
  from a have a1: "iteration_state api vocab mc (loop_bound v) k (initial_state w3) = Some s"
    and a2: "int k < loop_bound v" and a3: "response_pos s < MAX_RESPONSE_LENGTH - 256"
    and a4: "fst (llama_sampler_sample api (sampler mc) (ctx mc) (engine (world s)))
               = llama_token_eos api (model mc)"
    by simp_all
  have b: "loop_body api vocab mc s = (EndOfGeneration, ?s')"
    using loop_body_eos [OF a4] .
  have g: "generate v api h p w = (Inr (NewStringUTF (response ?s')), world ?s')"
    using generate_at_iteration [OF assms(1) a1 a2 a3 b] by simp
  show "engine (snd (generate v api h p w))
               = snd (llama_sampler_sample api (sampler mc) (ctx mc) (engine (world s)))"
    using g by (simp add: call_sample_eq)
  show "trace (snd (generate v api h p w))
               = trace (world s)
                   @ [Sample (sampler mc) (ctx mc) (llama_token_eos api (model mc))]"
    using g a by (simp add: call_sample_eq)
qed

theorem end_token_never_accepted_witness:
  "fst (enter_loop Jni demo_platform 1 (Some ''Hello'') (demo_world [1, 2]))
     = Inr (demo_session, 11)
   \<and> (\<forall>q. Accept q (llama_token_eos demo_platform 10) \<notin> set (trace (demo_world [1, 2])))
   \<and> (\<forall>q. Accept q 0 \<notin> set (trace (snd (generate Jni demo_platform 1 (Some ''Hello'')
                                             (demo_world [1, 2])))))
   \<and> trace (snd (generate Jni demo_platform 1 (Some ''Hello'') (demo_world [1, 2])))
       = [MemoryClear 20, Tokenize 11 ''Hello'' 2048 5, Decode 20 [7, 7, 7, 7, 7] 0,
          Sample 30 20 1, Accept 30 1, Decode 20 [1] 0,
          Sample 30 20 2, Accept 30 2, Decode 20 [2] 0,
          Sample 30 20 0]
   \<and> engine (snd (generate Jni demo_platform 1 (Some ''Hello'') (demo_world [1, 2]))) = []"
proof -
  define w3 where
    "w3 = snd (enter_loop Jni demo_platform 1 (Some ''Hello'') (demo_world [1, 2]))"
  define s1 where "s1 = snd (loop_body demo_platform 11 demo_session (initial_state w3))"
  define s2 where "s2 = snd (loop_body demo_platform 11 demo_session s1)"
  have e: "enter_loop Jni demo_platform 1 (Some ''Hello'') (demo_world [1, 2])
             = (Inr (demo_session, 11), w3)"
    unfolding w3_def by (simp add: run_defs)
  have n: "\<forall>q. Accept q (llama_token_eos demo_platform (model demo_session))
                  \<notin> set (trace (demo_world [1, 2]))"
    by (simp add: demo_world_def)
  have k: "iteration_state demo_platform 11 demo_session (loop_bound Jni) (Suc (Suc 0))
             (initial_state w3) = Some s2"
    unfolding s2_def s1_def w3_def by (simp add: run_defs)
  have c: "int (Suc (Suc 0)) < loop_bound Jni" "response_pos s2 < MAX_RESPONSE_LENGTH - 256"
    unfolding s2_def s1_def w3_def by (simp_all add: run_defs)
  have t: "fst (llama_sampler_sample demo_platform (sampler demo_session) (ctx demo_session)
                  (engine (world s2)))
             = llama_token_eos demo_platform (model demo_session)"
    unfolding s2_def s1_def w3_def by (simp add: run_defs)
  have v: "trace (world s2) = [MemoryClear 20, Tokenize 11 ''Hello'' 2048 5,
          Decode 20 [7, 7, 7, 7, 7] 0, Sample 30 20 1, Accept 30 1, Decode 20 [1] 0,
          Sample 30 20 2, Accept 30 2, Decode 20 [2] 0]"
    "engine (world s2) = []"
    unfolding s2_def s1_def w3_def by (simp_all add: run_defs)
  note T = end_token_never_accepted [OF e n]
  show ?thesis
    using T [THEN conjunct1] T [THEN conjunct2, rule_format, of "Suc (Suc 0)" s2] e n k c t v
    by (simp add: demo_platform_def demo_session_def)
qed

section \<open>Creating a session\<close>

lemmas load_defs = loadModel_def call_model_load_def call_init_from_model_def
  call_sampler_chain_init_def malloc_model_context_def call_malloc_def add_sampling_layers_def

lemma loadModel_failure:
  assumes "loadModel api path w = (Inl err, w')"
  shows "live_resources (trace w') = live_resources (trace w) \<and> heap w' = heap w"
  using assms unfolding load_defs
  by (auto simp: live_resources_append split: option.splits prod.splits if_splits)

lemma loadModel_unloadable:
  assumes "GetStringUTFChars api jpath (engine w) = Some chars"
    and "fst (llama_model_load_from_file api chars (void_effect api BackendInit (engine w))) = 0"
  shows "fst (loadModel api (Some jpath) w) = Inl (Throw RuntimeException ''Failed to load model'')
       \<and> trace (snd (loadModel api (Some jpath) w))
           = trace w @ [BackendInit, ModelLoad chars 0, BackendFree]"
  using assms unfolding load_defs
  by (auto split: option.splits prod.splits if_splits)

lemma loadModel_simple_any_path:
  assumes "GetStringUTFChars api jpath (s_engine sw) = Some chars"
    and "fst (malloc api (s_engine sw))"
  shows "fst (loadModel_simple api (Some jpath) sw) = Inr (Suc (s_brk sw))"
  using assms
  by (auto simp: loadModel_simple_def printf_def Let_def split: option.splits prod.splits)

text \<open>
  Claim C4, as amended. In the two bridges with an engine behind them, a \<open>loadModel\<close> that
  fails returns no handle, allocates no session struct and leaves exactly the engine
  resources acquired that were acquired before the call: the backend, the model, the
  context and the sampler chain it created have been freed. A path whose model the
  engine cannot load gives \<open>RuntimeException\<close> after the calls backend init, model load,
  backend free and nothing else. The mock bridge does not fail on such a path: whatever
  \<open>fopen\<close> says, it returns a session as long as \<open>malloc\<close> succeeds.
\<close>

theorem loadModel_failure_unwinds:
  "(loadModel api path w = (Inl err, w') \<longrightarrow>
      live_resources (trace w') = live_resources (trace w) \<and> heap w' = heap w)
   \<and> (path = Some jpath \<and> GetStringUTFChars api jpath (engine w) = Some chars
        \<and> fst (llama_model_load_from_file api chars (void_effect api BackendInit (engine w))) = 0
      \<longrightarrow>
      fst (loadModel api path w) = Inl (Throw RuntimeException ''Failed to load model'')
      \<and> trace (snd (loadModel api path w))
           = trace w @ [BackendInit, ModelLoad chars 0, BackendFree])
   \<and> (path = Some jpath \<and> GetStringUTFChars api jpath (s_engine sw) = Some chars
        \<and> fst (malloc api (s_engine sw)) \<longrightarrow>
      fst (loadModel_simple api path sw) = Inr (Suc (s_brk sw)))"
  using loadModel_failure [of api path w err w']
    loadModel_unloadable [of api jpath w chars]
    loadModel_simple_any_path [of api jpath sw chars]
  by blast

theorem loadModel_failure_unwinds_witness:
  "fst (loadModel (demo_platform\<lparr>malloc := (\<lambda>e. (False, e))\<rparr>) (Some ''model.gguf'') empty_world)
     = Inl (Throw OutOfMemoryError ''Failed to allocate memory for model context'')
   \<and> live_resources (trace (snd (loadModel (demo_platform\<lparr>malloc := (\<lambda>e. (False, e))\<rparr>)
                                    (Some ''model.gguf'') empty_world))) = []
   \<and> fst (llama_model_load_from_file demo_platform ''missing.gguf'' []) = 0
   \<and> fst (loadModel demo_platform (Some ''missing.gguf'') empty_world)
       = Inl (Throw RuntimeException ''Failed to load model'')
   \<and> trace (snd (loadModel demo_platform (Some ''missing.gguf'') empty_world))
       = [BackendInit, ModelLoad ''missing.gguf'' 0, BackendFree]
   \<and> fst (loadModel_simple demo_platform (Some ''model.gguf'') empty_simple_world) = Inr 1"
proof -
  let ?oom = "demo_platform\<lparr>malloc := (\<lambda>e. (False, e))\<rparr>"
  let ?w' = "snd (loadModel ?oom (Some ''model.gguf'') empty_world)"
  have f: "fst (loadModel ?oom (Some ''model.gguf'') empty_world)
             = Inl (Throw OutOfMemoryError ''Failed to allocate memory for model context'')"
    by (simp add: load_defs demo_platform_def empty_world_def void_call_def)
  then have l: "loadModel ?oom (Some ''model.gguf'') empty_world
             = (Inl (Throw OutOfMemoryError ''Failed to allocate memory for model context''), ?w')"
    by (metis prod.collapse)
  have h: "GetStringUTFChars demo_platform ''missing.gguf'' (engine empty_world)
             = Some ''missing.gguf''
           \<and> fst (llama_model_load_from_file demo_platform ''missing.gguf''
                    (void_effect demo_platform BackendInit (engine empty_world))) = 0"
    by (simp add: demo_platform_def empty_world_def)
  have m: "GetStringUTFChars demo_platform ''model.gguf'' (s_engine empty_simple_world)
             = Some ''model.gguf''
           \<and> fst (malloc demo_platform (s_engine empty_simple_world))"
    by (simp add: demo_platform_def empty_simple_world_def)
  have z: "live_resources (trace empty_world) = []" "trace empty_world = []"
    "s_brk empty_simple_world = 0"
    "fst (llama_model_load_from_file demo_platform ''missing.gguf'' []) = 0"
    by (simp_all add: empty_world_def live_resources_def empty_simple_world_def
          demo_platform_def)
  note A = loadModel_failure_unwinds
             [of ?oom "Some ''model.gguf''" empty_world
                 "Throw OutOfMemoryError ''Failed to allocate memory for model context''" ?w',
              THEN conjunct1, rule_format, OF l]
  note B = loadModel_failure_unwinds
             [of demo_platform "Some ''missing.gguf''" empty_world _ _
                 "''missing.gguf''" "''missing.gguf''",
              THEN conjunct2, THEN conjunct1, rule_format, OF conjI [OF refl h]]
  note C = loadModel_failure_unwinds
             [of demo_platform "Some ''model.gguf''" _ _ _
                 "''model.gguf''" "''model.gguf''" empty_simple_world,
              THEN conjunct2, THEN conjunct2, rule_format, OF conjI [OF refl m]]
  show ?thesis using f A B C z by simp
qed

text \<open>
  The mock is given a path that \<open>fopen\<close> cannot open: it prints that the file was not
  found and returns the handle 1 with \<open>is_loaded = 1\<close>, where the claim has \<open>Create\<close> throw.
\<close>

theorem mock_loadModel_unreadable_path_counterexample:
  "file_exists demo_platform ''missing.gguf'' (s_engine empty_simple_world) = 0
   \<and> fst (loadModel_simple demo_platform (Some ''missing.gguf'') empty_simple_world) = Inr 1
   \<and> stdout (snd (loadModel_simple demo_platform (Some ''missing.gguf'') empty_simple_world))
       = [''Model file not found: missing.gguf (Enhanced Mock Mode - Simulating Load)'',
          ''Mock model loaded from: missing.gguf'']
   \<and> map_option is_loaded
        (s_heap (snd (loadModel_simple demo_platform (Some ''missing.gguf'')
                        empty_simple_world)) 1) = Some 1"
  by (simp add: loadModel_simple_def file_exists_def printf_def c_str_def Let_def
        demo_platform_def empty_simple_world_def)

lemma loadModel_success:
  assumes "loadModel api path w = (Inr h, w')"
  shows "h \<noteq> 0 \<and> (\<exists>mc. heap w' h = Some mc \<and> model mc \<noteq> 0 \<and> ctx mc \<noteq> 0 \<and> sampler mc \<noteq> 0)"
  using assms unfolding load_defs
  by (auto split: option.splits prod.splits if_splits)

lemma validate_request_IllegalState:
  "validate_request api h p w = Inl (Throw IllegalStateException msg) \<Longrightarrow>
     \<exists>mc. heap w h = Some mc \<and> (model mc = 0 \<or> ctx mc = 0 \<or> sampler mc = 0)"
  by (auto simp: validate_request_def split: if_splits option.splits)

lemma prime_prompt_IllegalState:
  "fst (prime_prompt api mc vocab ps pt n w) \<noteq> Inl (Throw IllegalStateException msg)"
  by (auto simp: prime_prompt_def split: prod.splits)

lemma enter_loop_IllegalState:
  assumes "fst (enter_loop v api h p w) = Inl (Throw IllegalStateException msg)"
  shows "validate_request api h p w = Inl (Throw IllegalStateException msg)"
proof (cases "validate_request api h p w")
  case (Inl err)
  then show ?thesis using assms
    by (cases v) (simp_all add: enter_loop_def before_loop_def before_loop_new_def)
next
  case (Inr x)
  obtain mc pt where x: "x = (mc, pt)" by (cases x)
  let ?w1 = "void_call api (MemoryClear (ctx mc)) w"
  let ?n = "llama_n_ctx api (ctx mc) (engine ?w1)"
  have False
  proof (cases v)
    case Jni
    obtain ok w2 where m: "call_malloc api ?w1 = (ok, w2)" by (cases "call_malloc api ?w1")
    let ?vo = "llama_model_get_vocab api (model mc) (engine w2)"
    obtain r w'' where pp: "prime_prompt api mc ?vo True pt ?n w2 = (r, w'')"
      by (cases "prime_prompt api mc ?vo True pt ?n w2")
    show False
      using assms Inr x Jni m pp prime_prompt_IllegalState [of api mc ?vo True pt ?n w2 msg]
      by (cases ok; cases r) (simp_all add: enter_loop_def before_loop_def Let_def)
  next
    case (JniNew m)
    obtain r w'' where pp: "prime_prompt api mc (model mc) False pt ?n ?w1 = (r, w'')"
      by (cases "prime_prompt api mc (model mc) False pt ?n ?w1")
    show False
      using assms Inr x JniNew pp
        prime_prompt_IllegalState [of api mc "model mc" False pt ?n ?w1 msg]
      by (cases r) (simp_all add: enter_loop_def before_loop_new_def Let_def)
  qed
  then show ?thesis ..
qed

lemma generate_IllegalState:
  assumes "fst (generate v api h p w) = Inl (Throw IllegalStateException msg)"
  shows "validate_request api h p w = Inl (Throw IllegalStateException msg)"
proof (cases "enter_loop v api h p w")
  case (Pair r w')
  show ?thesis
  proof (cases r)
    case (Inl err)
    then show ?thesis
      using Pair assms generate_failed [of v api h p w err w']
        enter_loop_IllegalState [of v api h p w msg]
      by simp
  next
    case (Inr x)
    obtain mc vocab where "x = (mc, vocab)" by (cases x)
    then show ?thesis
      using Pair Inr assms generate_reached [of v api h p w mc vocab w']
      by (simp add: generate_result)
  qed
qed

section \<open>A fresh handle is a complete session\<close>

text \<open>
  Claim C9. A handle that \<open>loadModel\<close> returns is not zero and is the address of a
  session struct whose model, context and sampler are all non-null; so no
  \<open>generateText\<close> on the world \<open>loadModel\<close> left, whatever the prompt and whatever
  \<open>maxTokens\<close>, throws \<open>IllegalStateException\<close>.
\<close>

theorem fresh_handle_is_complete_session:
  assumes "loadModel api path w = (Inr h, w')"
  shows "h \<noteq> 0
       \<and> (\<exists>mc. heap w' h = Some mc \<and> model mc \<noteq> 0 \<and> ctx mc \<noteq> 0 \<and> sampler mc \<noteq> 0)
       \<and> (\<forall>p msg. fst (generateText api h p w') \<noteq> Inl (Throw IllegalStateException msg))
       \<and> (\<forall>p maxTokens msg.
             fst (generateText_new api h p maxTokens w')
               \<noteq> Inl (Throw IllegalStateException msg))"
proof -
  note s = loadModel_success [OF assms]
  have n: "fst (generate v api h p w') \<noteq> Inl (Throw IllegalStateException msg)" for v p msg
  proof
    assume "fst (generate v api h p w') = Inl (Throw IllegalStateException msg)"
    from validate_request_IllegalState [OF generate_IllegalState [OF this]] s
    show False by auto
  qed
  have "fst (generateText api h p w') \<noteq> Inl (Throw IllegalStateException msg)" for p msg
    using n [of Jni p msg] by (simp add: generate_def)
  moreover
  have "fst (generateText_new api h p m w') \<noteq> Inl (Throw IllegalStateException msg)"
    for p m msg
    using n [of "JniNew m" p msg] by (simp add: generate_def)
  ultimately show ?thesis using s by blast
qed

theorem fresh_handle_is_complete_session_witness:
  "fst (loadModel demo_platform (Some ''model.gguf'') empty_world) = Inr 1
   \<and> heap (snd (loadModel demo_platform (Some ''model.gguf'') empty_world)) 1
       = Some \<lparr>model = 10, ctx = 20, sampler = 30\<rparr>
   \<and> (\<forall>p msg. fst (generateText demo_platform 1 p
                       (snd (loadModel demo_platform (Some ''model.gguf'') empty_world)))
                 \<noteq> Inl (Throw IllegalStateException msg))"
proof -
  let ?w' = "snd (loadModel demo_platform (Some ''model.gguf'') empty_world)"
  have f: "fst (loadModel demo_platform (Some ''model.gguf'') empty_world) = Inr 1"
    by (simp add: load_defs demo_platform_def empty_world_def void_call_def)
  then have l: "loadModel demo_platform (Some ''model.gguf'') empty_world = (Inr 1, ?w')"
    by (metis prod.collapse)
  have hp: "heap ?w' 1 = Some \<lparr>model = 10, ctx = 20, sampler = 30\<rparr>"
    by (simp add: load_defs demo_platform_def empty_world_def void_call_def)
  show ?thesis using fresh_handle_is_complete_session [OF l] f hp by simp
qed

section \<open>Releasing a session\<close>

lemma unloadModel_live:
  assumes "h \<noteq> 0" and "heap w h = Some mc"
  shows "fst (unloadModel api h w) = Inr ()
       \<and> trace (snd (unloadModel api h w))
           = trace w
             @ (if sampler mc \<noteq> 0 then [SamplerFree (sampler mc)] else [])
             @ (if ctx mc \<noteq> 0 then [ContextFree (ctx mc)] else [])
             @ (if model mc \<noteq> 0 then [ModelFree (model mc)] else [])
             @ [BackendFree]
       \<and> heap (snd (unloadModel api h w)) = (heap w)(h := None)"
  using assms by (simp add: unloadModel_def free_if_present_def Let_def)

text \<open>
  Claim C8, as amended. \<open>unloadModel\<close> with the handle 0 returns at once and changes
  nothing, any number of times, also after a release. On a live non-zero handle, in the
  two bridges with an engine behind them, it frees the sampler, then the context, then
  the model, each only when it is not null, then the session struct, and then calls
  \<open>llama_backend_free\<close>; the mock, which owns no engine resource, clears
  \<open>global_model\<close> when it is this session and frees the struct. What is not safe is a
  second release with the same non-zero handle: see the counterexample.
\<close>

theorem unloadModel_releases_in_reverse_order:
  "unloadModel api 0 w = (Inr (), w)
   \<and> unloadModel api 0 (snd (unloadModel api 0 w)) = (Inr (), w)
   \<and> (h \<noteq> 0 \<and> heap w h = Some mc \<longrightarrow>
        fst (unloadModel api h w) = Inr ()
        \<and> trace (snd (unloadModel api h w))
            = trace w
              @ (if sampler mc \<noteq> 0 then [SamplerFree (sampler mc)] else [])
              @ (if ctx mc \<noteq> 0 then [ContextFree (ctx mc)] else [])
              @ (if model mc \<noteq> 0 then [ModelFree (model mc)] else [])
              @ [BackendFree]
        \<and> heap (snd (unloadModel api h w)) = (heap w)(h := None)
        \<and> unloadModel api 0 (snd (unloadModel api h w))
            = (Inr (), snd (unloadModel api h w)))
   \<and> unloadModel_simple api 0 sw = (Inr (), sw)
   \<and> (h \<noteq> 0 \<and> s_heap sw h = Some smc \<longrightarrow>
        fst (unloadModel_simple api h sw) = Inr ()
        \<and> s_heap (snd (unloadModel_simple api h sw)) = (s_heap sw)(h := None)
        \<and> global_model (snd (unloadModel_simple api h sw))
            = (if global_model sw = h then 0 else global_model sw))"
proof -
  have z: "unloadModel api 0 w' = (Inr (), w')" for w' :: "'a world"
    by (simp add: unloadModel_def)
  have m: "fst (unloadModel_simple api h sw) = Inr ()
        \<and> s_heap (snd (unloadModel_simple api h sw)) = (s_heap sw)(h := None)
        \<and> global_model (snd (unloadModel_simple api h sw))
            = (if global_model sw = h then 0 else global_model sw)"
    if "h \<noteq> 0" "s_heap sw h = Some smc"
    using that by (simp add: unloadModel_simple_def Let_def)
  have "unloadModel_simple api 0 sw = (Inr (), sw)"
    by (simp add: unloadModel_simple_def)
  then show ?thesis using z unloadModel_live [of h w mc api] m by simp
qed

theorem unloadModel_releases_in_reverse_order_witness:
  "heap (demo_world []) 1 = Some demo_session
   \<and> fst (unloadModel demo_platform 1 (demo_world [])) = Inr ()
   \<and> trace (snd (unloadModel demo_platform 1 (demo_world [])))
       = [SamplerFree 30, ContextFree 20, ModelFree 10, BackendFree]
   \<and> heap (snd (unloadModel demo_platform 1 (demo_world []))) 1 = None
   \<and> trace (snd (unloadModel demo_platform 1
        ((demo_world [])\<lparr>heap := [1 \<mapsto> \<lparr>model = 10, ctx = 0, sampler = 30\<rparr>]\<rparr>)))
       = [SamplerFree 30, ModelFree 10, BackendFree]
   \<and> s_heap (snd (unloadModel_simple demo_platform 1
        (snd (loadModel_simple demo_platform (Some ''model.gguf'') empty_simple_world)))) 1
       = None"
proof -
  let ?partial = "(demo_world [])\<lparr>heap := [1 \<mapsto> \<lparr>model = 10, ctx = 0, sampler = 30\<rparr>]\<rparr>"
  let ?sw = "snd (loadModel_simple demo_platform (Some ''model.gguf'') empty_simple_world)"
  have a: "(1::nat) \<noteq> 0 \<and> heap (demo_world []) 1 = Some demo_session"
    by (simp add: demo_world_def)
  have b: "(1::nat) \<noteq> 0 \<and> heap ?partial 1 = Some \<lparr>model = 10, ctx = 0, sampler = 30\<rparr>"
    by simp
  have c: "(1::nat) \<noteq> 0
           \<and> s_heap ?sw 1 = Some \<lparr>model_id = 12345, model_path = ''model.gguf'', is_loaded = 1\<rparr>"
    by (simp add: loadModel_simple_def file_exists_def printf_def c_str_def Let_def
          demo_platform_def empty_simple_world_def)
  note A = unloadModel_releases_in_reverse_order
             [of demo_platform "demo_world []" 1 demo_session,
              THEN conjunct2, THEN conjunct2, THEN conjunct1, rule_format, OF a]
  note B = unloadModel_releases_in_reverse_order
             [of demo_platform ?partial 1 "\<lparr>model = 10, ctx = 0, sampler = 30\<rparr>",
              THEN conjunct2, THEN conjunct2, THEN conjunct1, rule_format, OF b]
  note C = unloadModel_releases_in_reverse_order
             [of demo_platform _ 1 _ ?sw
                 "\<lparr>model_id = 12345, model_path = ''model.gguf'', is_loaded = 1\<rparr>",
              THEN conjunct2, THEN conjunct2, THEN conjunct2, THEN conjunct2,
              rule_format, OF c]
  show ?thesis using a A B C by (simp add: demo_world_def demo_session_def)
qed

text \<open>
  Create, release, release: the handle 1 that \<open>loadModel\<close> returned is released, and the
  second \<open>unloadModel\<close> with the same handle reads the struct the first one freed.
\<close>

theorem unloadModel_twice_counterexample:
  "fst (loadModel demo_platform (Some ''model.gguf'') empty_world) = Inr 1
   \<and> fst (unloadModel demo_platform 1
            (snd (loadModel demo_platform (Some ''model.gguf'') empty_world))) = Inr ()
   \<and> fst (unloadModel demo_platform 1
            (snd (unloadModel demo_platform 1
                    (snd (loadModel demo_platform (Some ''model.gguf'') empty_world)))))
       = Inl InvalidPointer"
  by (simp add: load_defs unloadModel_def free_if_present_def Let_def void_call_def
        demo_platform_def empty_world_def)

section \<open>Rejected prompts\<close>

lemma validate_request_bad_length:
  assumes "GetStringUTFChars api jprompt (engine w) = Some pt"
    and "strlen pt = 0 \<or> strlen pt > MAX_PROMPT_LENGTH"
  shows "\<exists>err. validate_request api h (Some jprompt) w = Inl err"
  using assms by (auto simp: validate_request_def split: option.splits)

lemma generate_invalid:
  "validate_request api h p w = Inl err \<Longrightarrow> generate v api h p w = (Inl err, w)"
  by (cases v)
     (simp_all add: generate_def generateText_def generateText_new_def
        before_loop_def before_loop_new_def)

text \<open>
  Claim C6. When the characters of the prompt have length 0 or more than 4096, either
  bridge returns with an exception pending and the world exactly as it was: no
  tokenize, decode, sample or any other call has been made. On a live, complete
  session the exception is \<open>IllegalArgumentException\<close> (invalid prompt length), and
  with the null handle it is \<open>IllegalArgumentException\<close> too (model not loaded).
\<close>

theorem bad_prompt_length_rejected_before_engine:
  assumes "GetStringUTFChars api jprompt (engine w) = Some pt"
    and "strlen pt = 0 \<or> strlen pt > MAX_PROMPT_LENGTH"
  shows "snd (generate v api h (Some jprompt) w) = w
       \<and> (\<exists>err. fst (generate v api h (Some jprompt) w) = Inl err)
       \<and> (h \<noteq> 0 \<and> heap w h = Some mc
            \<and> model mc \<noteq> 0 \<and> ctx mc \<noteq> 0 \<and> sampler mc \<noteq> 0 \<longrightarrow>
            fst (generate v api h (Some jprompt) w)
              = Inl (Throw IllegalArgumentException ''Invalid prompt length''))
       \<and> (h = 0 \<longrightarrow>
            fst (generate v api h (Some jprompt) w)
              = Inl (Throw IllegalArgumentException ''Model not loaded''))"
proof -
  obtain err where e: "validate_request api h (Some jprompt) w = Inl err"
    using validate_request_bad_length [OF assms] by blast
  have g: "generate v api h (Some jprompt) w = (Inl err, w)"
    using generate_invalid [OF e] .
  have a: "h \<noteq> 0 \<and> heap w h = Some mc \<and> model mc \<noteq> 0 \<and> ctx mc \<noteq> 0 \<and> sampler mc \<noteq> 0
           \<longrightarrow> err = Throw IllegalArgumentException ''Invalid prompt length''"
    using e assms by (auto simp: validate_request_def)
  have b: "h = 0 \<longrightarrow> err = Throw IllegalArgumentException ''Model not loaded''"
    using e by (auto simp: validate_request_def)
  show ?thesis unfolding g using a b by simp
qed

theorem bad_prompt_length_rejected_before_engine_witness:
  "strlen [] = 0
   \<and> generate (JniNew 5) demo_platform 1 (Some []) (demo_world [1, 2])
       = (Inl (Throw IllegalArgumentException ''Invalid prompt length''), demo_world [1, 2])
   \<and> strlen (replicate 4097 CHR ''x'') > MAX_PROMPT_LENGTH
   \<and> generate Jni demo_platform 1 (Some (replicate 4097 CHR ''x'')) (demo_world [1, 2])
       = (Inl (Throw IllegalArgumentException ''Invalid prompt length''), demo_world [1, 2])"
proof -
  have s0: "strlen [] = 0" by (simp add: strlen_def c_str_def)
  have tw: "takeWhile (\<lambda>c. c \<noteq> CHR 0x00) (replicate n CHR ''x'') = replicate n CHR ''x''" for n
    by (induction n) simp_all
  have s1: "strlen (replicate 4097 CHR ''x'') > MAX_PROMPT_LENGTH"
    by (simp add: strlen_def c_str_def tw MAX_PROMPT_LENGTH_def)
  have g: "GetStringUTFChars demo_platform x (engine (demo_world [1, 2])) = Some x" for x
    by (simp add: demo_platform_def)
  have m: "(1::nat) \<noteq> 0 \<and> heap (demo_world [1, 2]) 1 = Some demo_session
            \<and> model demo_session \<noteq> 0 \<and> ctx demo_session \<noteq> 0 \<and> sampler demo_session \<noteq> 0"
    by (simp add: demo_world_def demo_session_def)
  note A = bad_prompt_length_rejected_before_engine
             [OF g disjI1 [OF s0], of "JniNew 5" 1 demo_session]
  note B = bad_prompt_length_rejected_before_engine
             [OF g disjI2 [OF s1], of Jni 1 demo_session]
  show ?thesis
    using s0 s1 A [THEN conjunct1] A [THEN conjunct2, THEN conjunct2, THEN conjunct1] m
      B [THEN conjunct1] B [THEN conjunct2, THEN conjunct2, THEN conjunct1]
    by (simp add: prod_eq_iff)
qed

section \<open>The tokenizer's report\<close>

lemma loop_body_no_tokenize:
  assumes "loop_body api vocab mc s = (ex, s')"
  shows "\<exists>evs. trace (world s') = trace (world s) @ evs
               \<and> (\<forall>a b c d. Tokenize a b c d \<notin> set evs)"
  using loop_body_trace [OF assms] by (auto split: if_splits)

lemma generation_loop_no_tokenize:
  "\<exists>evs. trace (world (generation_loop api vocab mc m i s)) = trace (world s) @ evs
         \<and> (\<forall>a b c d. Tokenize a b c d \<notin> set evs)"
proof (induction api vocab mc m i s rule: generation_loop.induct)
  case (1 api vocab mc m i s)
  show ?case
  proof (cases "i < m \<and> response_pos s < MAX_RESPONSE_LENGTH - 256")
    case False
    then show ?thesis by (simp add: generation_loop_stop)
  next
    case True
    obtain ex s' where b: "loop_body api vocab mc s = (ex, s')"
      by (cases "loop_body api vocab mc s")
    obtain evs where evs: "trace (world s') = trace (world s) @ evs"
      "\<forall>a b c d. Tokenize a b c d \<notin> set evs"
      using loop_body_no_tokenize [OF b] by blast
    show ?thesis
    proof (cases "ex = Next")
      case N: True
      with b have b': "loop_body api vocab mc s = (Next, s')" by simp
      have g: "generation_loop api vocab mc m i s = generation_loop api vocab mc m (i + 1) s'"
        using generation_loop_next [OF _ _ b', of i m] True by simp
      obtain evs' where evs':
        "trace (world (generation_loop api vocab mc m (i + 1) s')) = trace (world s') @ evs'"
        "\<forall>a b c d. Tokenize a b c d \<notin> set evs'"
        using "1.IH" [OF True b' [symmetric] refl] by blast
      have "trace (world (generation_loop api vocab mc m i s)) = trace (world s) @ (evs @ evs')"
        using g evs evs' by simp
      moreover have "\<forall>a b c d. Tokenize a b c d \<notin> set (evs @ evs')"
        using evs evs' by simp
      ultimately show ?thesis by blast
    next
      case False
      have "generation_loop api vocab mc m i s = s'"
        using generation_loop_break [OF _ _ b False, of i m] True by simp
      then show ?thesis using evs by blast
    qed
  qed
qed

lemma prime_prompt_events:
  "\<exists>n rest. trace (snd (prime_prompt api mc vocab ps pt n_ctx w))
               = trace w @ Tokenize vocab pt n_ctx n # rest
     \<and> (\<forall>a b c d. Tokenize a b c d \<notin> set rest)
     \<and> (n < 0 \<longrightarrow>
          fst (prime_prompt api mc vocab ps pt n_ctx w)
            = Inl (Throw RuntimeException ''Failed to tokenize prompt'') \<and> rest = [])
     \<and> (0 \<le> n \<and> n_ctx \<le> n \<longrightarrow>
          fst (prime_prompt api mc vocab ps pt n_ctx w)
            = Inl (Throw IllegalArgumentException ''Prompt too long for context'')
          \<and> rest = [])
     \<and> ((\<exists>u. fst (prime_prompt api mc vocab ps pt n_ctx w) = Inr u) \<longrightarrow> 0 \<le> n \<and> n < n_ctx)"
  by (auto simp: prime_prompt_def call_tokenize_def call_decode_eq call_malloc_def
        split: prod.splits)

lemma enter_loop_shape:
  assumes "validate_request api h p w = Inr (mc, pt)"
  shows "\<exists>w2. trace w2 = trace w @ [MemoryClear (ctx mc)]
          \<and> (enter_loop v api h p w
                = (Inl (Throw OutOfMemoryError ''Failed to allocate token buffer''), w2)
             \<or> (\<exists>vo ps.
                  enter_loop v api h p w
                    = (case prime_prompt api mc vo ps pt
                              (llama_n_ctx api (ctx mc)
                                 (void_effect api (MemoryClear (ctx mc)) (engine w))) w2 of
                         (Inl err, w') \<Rightarrow> (Inl err, w')
                       | (Inr u, w') \<Rightarrow> (Inr (mc, vo), w'))))"
proof (cases v)
  case Jni
  let ?w1 = "void_call api (MemoryClear (ctx mc)) w"
  obtain ok w2 where m: "call_malloc api ?w1 = (ok, w2)" by (cases "call_malloc api ?w1")
  have t: "trace w2 = trace w @ [MemoryClear (ctx mc)]"
    using call_malloc_trace [of api ?w1] m by simp
  show ?thesis
  proof (cases ok)
    case True
    then have "enter_loop v api h p w
                 = (case prime_prompt api mc (llama_model_get_vocab api (model mc) (engine w2))
                           True pt
                           (llama_n_ctx api (ctx mc)
                              (void_effect api (MemoryClear (ctx mc)) (engine w))) w2 of
                      (Inl err, w') \<Rightarrow> (Inl err, w')
                    | (Inr u, w') \<Rightarrow>
                        (Inr (mc, llama_model_get_vocab api (model mc) (engine w2)), w'))"
      using Jni assms m by (simp add: enter_loop_def before_loop_def Let_def)
    then show ?thesis using t by blast
  next
    case False
    then have "enter_loop v api h p w
                 = (Inl (Throw OutOfMemoryError ''Failed to allocate token buffer''), w2)"
      using Jni assms m by (simp add: enter_loop_def before_loop_def Let_def)
    then show ?thesis using t by blast
  qed
next
  case (JniNew maxTokens)
  let ?w1 = "void_call api (MemoryClear (ctx mc)) w"
  have "enter_loop v api h p w
          = (case prime_prompt api mc (model mc) False pt
                    (llama_n_ctx api (ctx mc)
                       (void_effect api (MemoryClear (ctx mc)) (engine w))) ?w1 of
               (Inl err, w') \<Rightarrow> (Inl err, w')
             | (Inr u, w') \<Rightarrow> (Inr (mc, model mc), w'))"
    using JniNew assms by (simp add: enter_loop_def before_loop_new_def Let_def)
  moreover have "trace ?w1 = trace w @ [MemoryClear (ctx mc)]" by simp
  ultimately show ?thesis by blast
qed

text \<open>
  Claim C7. Take any call of either bridge and the calls \<open>evs\<close> it added to the trace.
  If among them the tokenizer reported the count \<open>n\<close> for a buffer of \<open>n_max\<close> tokens,
  then: \<open>n_max\<close> is the size \<open>llama_n_ctx\<close> gives for the session's context; with
  \<open>n < 0\<close> the call throws \<open>RuntimeException\<close> (failed to tokenize); with
  \<open>0 \<le> n\<close> and \<open>n \<ge> n_max\<close> it throws \<open>IllegalArgumentException\<close> (prompt too long
  for context); and in both cases no decode call is among \<open>evs\<close>.
\<close>

theorem tokenizer_report_rejected_before_decode:
  assumes "trace (snd (generate v api h p w)) = trace w @ evs"
    and "Tokenize vocab pt n_max n \<in> set evs"
  shows "(\<exists>mc. heap w h = Some mc
            \<and> n_max = llama_n_ctx api (ctx mc)
                        (void_effect api (MemoryClear (ctx mc)) (engine w)))
       \<and> (n < 0 \<longrightarrow>
            fst (generate v api h p w)
              = Inl (Throw RuntimeException ''Failed to tokenize prompt'')
            \<and> decode_calls evs = 0)
       \<and> (0 \<le> n \<and> n \<ge> n_max \<longrightarrow>
            fst (generate v api h p w)
              = Inl (Throw IllegalArgumentException ''Prompt too long for context'')
            \<and> decode_calls evs = 0)"
proof (cases "validate_request api h p w")
  case (Inl err)
  then have "evs = []" using generate_invalid [OF Inl, of v] assms(1) by simp
  then show ?thesis using assms(2) by simp
next
  case (Inr x)
  obtain mc pt' where x: "x = (mc, pt')" by (cases x)
  have val: "validate_request api h p w = Inr (mc, pt')" using Inr x by simp
  have hp: "heap w h = Some mc" using validate_request_Inr [OF val] by simp
  let ?n_ctx = "llama_n_ctx api (ctx mc) (void_effect api (MemoryClear (ctx mc)) (engine w))"
  obtain w2 where t2: "trace w2 = trace w @ [MemoryClear (ctx mc)]"
    and sh: "enter_loop v api h p w
                = (Inl (Throw OutOfMemoryError ''Failed to allocate token buffer''), w2)
             \<or> (\<exists>vo ps.
                  enter_loop v api h p w
                    = (case prime_prompt api mc vo ps pt' ?n_ctx w2 of
                         (Inl err, w') \<Rightarrow> (Inl err, w')
                       | (Inr u, w') \<Rightarrow> (Inr (mc, vo), w')))"
    using enter_loop_shape [OF val, of v] by blast
  from sh show ?thesis
  proof
    assume "enter_loop v api h p w
              = (Inl (Throw OutOfMemoryError ''Failed to allocate token buffer''), w2)"
    then have "evs = [MemoryClear (ctx mc)]"
      using generate_failed [of v api h p w _ w2] assms(1) t2 by simp
    then show ?thesis using assms(2) by simp
  next
    assume "\<exists>vo ps.
              enter_loop v api h p w
                = (case prime_prompt api mc vo ps pt' ?n_ctx w2 of
                     (Inl err, w') \<Rightarrow> (Inl err, w')
                   | (Inr u, w') \<Rightarrow> (Inr (mc, vo), w'))"
    then obtain vo ps where
      en: "enter_loop v api h p w
                = (case prime_prompt api mc vo ps pt' ?n_ctx w2 of
                     (Inl err, w') \<Rightarrow> (Inl err, w')
                   | (Inr u, w') \<Rightarrow> (Inr (mc, vo), w'))"
      by blast
    obtain r w' where pp: "prime_prompt api mc vo ps pt' ?n_ctx w2 = (r, w')"
      by (cases "prime_prompt api mc vo ps pt' ?n_ctx w2")
    obtain n0 rest where
      tr: "trace w' = trace w2 @ Tokenize vo pt' ?n_ctx n0 # rest"
      and nt: "\<forall>a b c d. Tokenize a b c d \<notin> set rest"
      and neg: "n0 < 0 \<longrightarrow> r = Inl (Throw RuntimeException ''Failed to tokenize prompt'')
                  \<and> rest = []"
      and long: "0 \<le> n0 \<and> ?n_ctx \<le> n0 \<longrightarrow>
                  r = Inl (Throw IllegalArgumentException ''Prompt too long for context'')
                  \<and> rest = []"
      and ok: "(\<exists>u. r = Inr u) \<longrightarrow> 0 \<le> n0 \<and> n0 < ?n_ctx"
      using prime_prompt_events [of api mc vo ps pt' ?n_ctx w2] pp by auto
    show ?thesis
    proof (cases r)
      case (Inl err)
      then have g: "generate v api h p w = (Inl err, w')"
        using en pp generate_failed [of v api h p w err w'] by simp
      then have evs: "evs = MemoryClear (ctx mc) # Tokenize vo pt' ?n_ctx n0 # rest"
        using assms(1) tr t2 by simp
      then have same: "n = n0 \<and> n_max = ?n_ctx" using assms(2) nt by auto
      show ?thesis
        using same hp g Inl neg long evs by (auto simp: decode_calls_def)
    next
      case (Inr u)
      then have g: "generate v api h p w
                      = generate_response api vo mc (loop_bound v) w'"
        using en pp generate_reached [of v api h p w mc vo w'] by simp
      obtain levs where
        lt: "trace (world (generation_loop api vo mc (loop_bound v) 0 (initial_state w')))
               = trace w' @ levs"
        and lnt: "\<forall>a b c d. Tokenize a b c d \<notin> set levs"
        using generation_loop_no_tokenize
                [of api vo mc "loop_bound v" 0 "initial_state w'"]
        by (auto simp: initial_state_def)
      have evs: "evs = MemoryClear (ctx mc) # Tokenize vo pt' ?n_ctx n0 # rest @ levs"
        using assms(1) g lt tr t2 by (simp add: generate_result)
      then have same: "n = n0 \<and> n_max = ?n_ctx" using assms(2) nt lnt by auto
      show ?thesis using same hp ok Inr by auto
    qed
  qed
qed

theorem tokenizer_report_rejected_before_decode_witness:
  "trace (snd (generate (JniNew 5)
                 (demo_platform\<lparr>llama_tokenize := (\<lambda>v t n a p e. (- 3, []))\<rparr>)
                 1 (Some ''Hello'') (demo_world [1])))
     = trace (demo_world [1]) @ [MemoryClear 20, Tokenize 10 ''Hello'' 2048 (- 3)]
   \<and> fst (generate (JniNew 5)
            (demo_platform\<lparr>llama_tokenize := (\<lambda>v t n a p e. (- 3, []))\<rparr>)
            1 (Some ''Hello'') (demo_world [1]))
       = Inl (Throw RuntimeException ''Failed to tokenize prompt'')
   \<and> trace (snd (generate Jni
                 (demo_platform\<lparr>llama_tokenize := (\<lambda>v t n a p e. (2048, []))\<rparr>)
                 1 (Some ''Hello'') (demo_world [1])))
     = trace (demo_world [1]) @ [MemoryClear 20, Tokenize 11 ''Hello'' 2048 2048]
   \<and> fst (generate Jni
            (demo_platform\<lparr>llama_tokenize := (\<lambda>v t n a p e. (2048, []))\<rparr>)
            1 (Some ''Hello'') (demo_world [1]))
       = Inl (Throw IllegalArgumentException ''Prompt too long for context'')"
proof -
  let ?neg = "demo_platform\<lparr>llama_tokenize := (\<lambda>v t n a p e. (- 3, []))\<rparr>"
  let ?long = "demo_platform\<lparr>llama_tokenize := (\<lambda>v t n a p e. (2048, []))\<rparr>"
  have a: "trace (snd (generate (JniNew 5) ?neg 1 (Some ''Hello'') (demo_world [1])))
             = trace (demo_world [1]) @ [MemoryClear 20, Tokenize 10 ''Hello'' 2048 (- 3)]"
    by (simp add: run_defs)
  have b: "trace (snd (generate Jni ?long 1 (Some ''Hello'') (demo_world [1])))
             = trace (demo_world [1]) @ [MemoryClear 20, Tokenize 11 ''Hello'' 2048 2048]"
    by (simp add: run_defs)
  have ma: "Tokenize 10 ''Hello'' 2048 (- 3)
              \<in> set [MemoryClear 20, Tokenize 10 ''Hello'' 2048 (- 3)]"
    by simp
  have mb: "Tokenize 11 ''Hello'' 2048 2048
              \<in> set [MemoryClear 20, Tokenize 11 ''Hello'' 2048 2048]"
    by simp
  note A = tokenizer_report_rejected_before_decode
             [OF a ma, THEN conjunct2, THEN conjunct1, rule_format]
  note B = tokenizer_report_rejected_before_decode
             [OF b mb, THEN conjunct2, THEN conjunct2, rule_format]
  have "fst (generate (JniNew 5) ?neg 1 (Some ''Hello'') (demo_world [1]))
          = Inl (Throw RuntimeException ''Failed to tokenize prompt'')"
    using A by simp
  moreover
  have "fst (generate Jni ?long 1 (Some ''Hello'') (demo_world [1]))
          = Inl (Throw IllegalArgumentException ''Prompt too long for context'')"
    using B by simp
  ultimately show ?thesis using a b by simp
qed

end
